theory Spec2Isabelle
  imports Complex_Main
begin

section \<open>The three tables of bookstore.db\<close>

text \<open>
  The schema is the one created by \<open>initialize_db\<close>. A row is a record whose fields are
  the columns; a table is the list of its rows. A Python \<open>str\<close> is a \<open>string\<close>, one
  character per code point (code points above 255 are outside the model); identifiers
  and dates are only ever compared for equality or matched against the date pattern.
  A Python integer is an unbounded \<open>int\<close>. An INTEGER value of the database is a signed
  64-bit integer: binding a Python integer outside that range to a parameter of a
  statement raises \<open>OverflowError\<close>, and an INTEGER subtraction that leaves the range is
  carried out in floating point and gives a REAL. The only column the program computes
  in SQL is \<open>bstock\<close>, so a stock is a \<open>num\<close>: an INTEGER or a REAL; a REAL is given by
  the real number that the double is.
\<close>

datatype num = IntV int | RealV real

definition in_i64 :: "int \<Rightarrow> bool" where
  "in_i64 n \<longleftrightarrow> - 9223372036854775808 \<le> n \<and> n \<le> 9223372036854775807"

text \<open>The real number a stock is.\<close>

fun num_val :: "num \<Rightarrow> real" where
  "num_val (IntV n) = of_int n"
| "num_val (RealV r) = r"

text \<open>
  \<open>b['bstock'] < sqty\<close> in Python, where the stock read is an \<open>int\<close> or a \<open>float\<close> and
  \<open>sqty\<close> is an \<open>int\<close>: Python compares the two numbers exactly.
\<close>

fun num_less :: "num \<Rightarrow> int \<Rightarrow> bool" where
  "num_less (IntV n) q \<longleftrightarrow> n < q"
| "num_less (RealV r) q \<longleftrightarrow> r < of_int q"

text \<open>
  A REAL stored in a column of INTEGER affinity becomes an INTEGER when it is a whole
  number strictly between the least and the greatest 64-bit integer, and stays a REAL
  otherwise.
\<close>

definition integer_affinity :: "real \<Rightarrow> num" where
  "integer_affinity r =
     (if r = of_int \<lfloor>r\<rfloor> \<and> - 9223372036854775808 < \<lfloor>r\<rfloor> \<and> \<lfloor>r\<rfloor> < 9223372036854775807
      then IntV \<lfloor>r\<rfloor> else RealV r)"

text \<open>
  \<open>bstock - ?\<close> with an INTEGER parameter, as SQLite evaluates and stores it. Two INTEGERs
  are subtracted as 64-bit integers; when the difference leaves the range, or when the
  stock is a REAL, both operands are converted to doubles and subtracted as doubles.
  The parameter \<open>D\<close> of the model is the rounding of a real number to the nearest double.
\<close>

fun sub_stock :: "(real \<Rightarrow> real) \<Rightarrow> num \<Rightarrow> int \<Rightarrow> num" where
  "sub_stock D (IntV n) q =
     (if in_i64 (n - q) then IntV (n - q)
      else integer_affinity (D (D (of_int n) - D (of_int q))))"
| "sub_stock D (RealV r) q = integer_affinity (D (r - D (of_int q)))"

record member =
  mid :: string
  mname :: string
  mphone :: string
  memail :: "string option"

record book =
  bid :: string
  btitle :: string
  bprice :: int
  bstock :: num

record sale =
  sid :: int
  sdate :: string
  mid :: string
  bid :: string
  sqty :: int
  sdiscount :: int
  stotal :: int

text \<open>
  \<open>sale_seq\<close> is the entry of the table \<open>sale\<close> in \<open>sqlite_sequence\<close>: the largest
  \<open>sid\<close> an AUTOINCREMENT insertion has handed out so far.
\<close>

record store =
  members :: "member list"
  books :: "book list"
  sales :: "sale list"
  sale_seq :: int

text \<open>
  A connection: \<open>saved\<close> is the database as of the last commit, \<open>live\<close> is what the
  statements of this connection read and write. \<open>conn.commit()\<close> makes the live state
  the saved one, \<open>conn.rollback()\<close> discards the live changes.
\<close>

record conn =
  saved :: store
  live :: store

definition commit :: "conn \<Rightarrow> conn" where
  "commit c = c\<lparr>saved := live c\<rparr>"

definition rollback :: "conn \<Rightarrow> conn" where
  "rollback c = c\<lparr>live := saved c\<rparr>"

text \<open>
  Every \<open>cur.execute\<close> and \<open>conn.commit\<close> may raise \<open>sqlite3.Error\<close>. Each statement
  of the program has a label, and the environment says which of them raise; a statement
  that raises leaves the database as it was.
\<close>

datatype stmt =
    SelMember | SelBook | InsSale | UpdBook
  | SelReport | SelList | SelSale | SelPrice | UpdSale | DelSale
  | Commit

type_synonym faults = "stmt \<Rightarrow> bool"

definition no_faults :: faults where
  "no_faults = (\<lambda>s. False)"

text \<open>
  The messages the program returns or prints. A constructor stands for one message
  template of the source and carries the values the template interpolates:
  \<^item> \<open>MsgInvalidIds\<close>: member identifier or book identifier invalid;
  \<^item> \<open>MsgInsufficientStock n\<close>: stock insufficient, \<open>n\<close> left (the stock as it was read);
  \<^item> \<open>MsgSaleAdded t\<close>: sale record added, sale total \<open>t\<close>;
  \<^item> \<open>MsgDbError\<close>: a database operation error occurred.
\<close>

datatype msg =
    MsgInvalidIds
  | MsgInsufficientStock num
  | MsgSaleAdded int
  | MsgDbError

text \<open>
  The exceptions that leave a function of the program: \<open>EOFError\<close> from \<open>input\<close>,
  \<open>SqliteError\<close> for an \<open>sqlite3.Error\<close> raised outside a \<open>try\<close>, \<open>TypeError\<close> from
  subscripting the \<open>None\<close> that \<open>fetchone\<close> returned, and \<open>OverflowError\<close> from binding an
  integer outside 64 bits, which is not an \<open>sqlite3.Error\<close> and so is caught nowhere.
\<close>

datatype exn = EOFError | SqliteError | TypeError | OverflowError

section \<open>The SQL statements\<close>

text \<open>\<open>SELECT 1 FROM member WHERE mid=?\<close> followed by \<open>fetchone\<close>.\<close>

definition select_member :: "store \<Rightarrow> string \<Rightarrow> member option" where
  "select_member st k = find (\<lambda>m. member.mid m = k) (members st)"

text \<open>\<open>SELECT bprice,bstock FROM book WHERE bid=?\<close> followed by \<open>fetchone\<close>.\<close>

definition select_book :: "store \<Rightarrow> string \<Rightarrow> book option" where
  "select_book st k = find (\<lambda>b. book.bid b = k) (books st)"

text \<open>
  The \<open>sid\<close> of the next inserted row: one more than the largest \<open>sid\<close> that is in the
  table or was ever handed out.
\<close>

definition next_sid :: "store \<Rightarrow> int" where
  "next_sid st = fold max (map sid (sales st)) (sale_seq st) + 1"

text \<open>\<open>INSERT INTO sale(sdate,mid,bid,sqty,sdiscount,stotal) VALUES(?,?,?,?,?,?)\<close>.\<close>

definition insert_sale ::
  "store \<Rightarrow> string \<Rightarrow> string \<Rightarrow> string \<Rightarrow> int \<Rightarrow> int \<Rightarrow> int \<Rightarrow> store" where
  "insert_sale st d m b q disc tot =
     st\<lparr>sales := sales st @
            [\<lparr>sid = next_sid st, sdate = d, mid = m, bid = b,
              sqty = q, sdiscount = disc, stotal = tot\<rparr>],
        sale_seq := next_sid st\<rparr>"

text \<open>\<open>UPDATE book SET bstock=bstock-? WHERE bid=?\<close>.\<close>

definition update_stock :: "(real \<Rightarrow> real) \<Rightarrow> store \<Rightarrow> int \<Rightarrow> string \<Rightarrow> store" where
  "update_stock D st q k =
     st\<lparr>books := map (\<lambda>b. if book.bid b = k then b\<lparr>bstock := sub_stock D (bstock b) q\<rparr>
                          else b)
                     (books st)\<rparr>"

section \<open>add_sale\<close>

text \<open>
  The result is the pair the function returns, or the exception that leaves it, and the
  connection afterwards. A statement is prepared, and the transaction opened, before
  its parameters are bound, so a database error of the INSERT that comes together with
  an integer outside 64 bits comes first. The INSERT itself fails with a database error
  (the table is full) when the next \<open>sid\<close> would be above the greatest 64-bit integer.
\<close>

definition db_error :: "conn \<Rightarrow> (exn + bool \<times> msg) \<times> conn" where
  "db_error c = (Inr (False, MsgDbError), rollback c)"

definition add_sale ::
  "(real \<Rightarrow> real) \<Rightarrow> faults \<Rightarrow> conn \<Rightarrow> string \<Rightarrow> string \<Rightarrow> string \<Rightarrow> int \<Rightarrow> int \<Rightarrow>
   (exn + bool \<times> msg) \<times> conn" where
  "add_sale D F c sdate' mid' bid' sqty' sdiscount' =
     (if F SelMember then db_error c
      else let ok1 = select_member (live c) mid' in
      if F SelBook then db_error c
      else
        (case select_book (live c) bid' of
           None \<Rightarrow> (Inr (False, MsgInvalidIds), c)
         | Some b \<Rightarrow>
             if ok1 = None then (Inr (False, MsgInvalidIds), c)
             else if num_less (bstock b) sqty'
             then (Inr (False, MsgInsufficientStock (bstock b)), c)
             else
               let total' = bprice b * sqty' - sdiscount' in
               if F InsSale then db_error c
               else if \<not> (in_i64 sqty' \<and> in_i64 sdiscount' \<and> in_i64 total')
               then (Inl OverflowError, c)
               else if \<not> in_i64 (next_sid (live c)) then db_error c
               else
                 let c1 = c\<lparr>live := insert_sale (live c) sdate' mid' bid' sqty' sdiscount' total'\<rparr> in
                 if F UpdBook then db_error c1
                 else
                   let c2 = c1\<lparr>live := update_stock D (live c1) sqty' bid'\<rparr> in
                   if F Commit then db_error c2
                   else (Inr (True, MsgSaleAdded total'), commit c2)))"

section \<open>The seed data\<close>

text \<open>The rows \<open>initialize_db\<close> inserts into an empty database.\<close>

definition seed_store :: store where
  "seed_store =
     \<lparr>members =
        [\<lparr>member.mid = ''M001'', mname = ''Alice'', mphone = ''0912-345678'',
          memail = Some ''alice@example.com''\<rparr>,
         \<lparr>member.mid = ''M002'', mname = ''Bob'', mphone = ''0923-456789'',
          memail = Some ''bob@example.com''\<rparr>,
         \<lparr>member.mid = ''M003'', mname = ''Cathy'', mphone = ''0934-567890'',
          memail = Some ''cathy@example.com''\<rparr>],
      books =
        [\<lparr>book.bid = ''B001'', btitle = ''Python Programming'', bprice = 600, bstock = IntV 50\<rparr>,
         \<lparr>book.bid = ''B002'', btitle = ''Data Science Basics'', bprice = 800, bstock = IntV 30\<rparr>,
         \<lparr>book.bid = ''B003'', btitle = ''Machine Learning Guide'', bprice = 1200, bstock = IntV 20\<rparr>],
      sales =
        [\<lparr>sid = 1, sdate = ''2024-01-15'', mid = ''M001'', bid = ''B001'',
          sqty = 2, sdiscount = 100, stotal = 1100\<rparr>,
         \<lparr>sid = 2, sdate = ''2024-01-16'', mid = ''M002'', bid = ''B002'',
          sqty = 1, sdiscount = 50, stotal = 750\<rparr>,
         \<lparr>sid = 3, sdate = ''2024-01-17'', mid = ''M001'', bid = ''B003'',
          sqty = 1, sdiscount = 0, stotal = 1200\<rparr>,
         \<lparr>sid = 4, sdate = ''2024-01-18'', mid = ''M003'', bid = ''B001'',
          sqty = 1, sdiscount = 0, stotal = 600\<rparr>,
         \<lparr>sid = 5, sdate = ''2024-01-19'', mid = ''M002'', bid = ''B003'',
          sqty = 2, sdiscount = 150, stotal = 2250\<rparr>],
      sale_seq = 5\<rparr>"

definition seed_conn :: conn where
  "seed_conn = \<lparr>saved = seed_store, live = seed_store\<rparr>"

section \<open>The console\<close>

text \<open>
  Standard input is the list of the lines still to be read; \<open>input()\<close> takes the first
  one and raises \<open>EOFError\<close> when there is none. What \<open>print\<close> writes is a list of
  lines, one constructor per message template of the source, with the interpolated
  values as arguments (the prompts written by \<open>input\<close> are not recorded):
  \<^item> \<open>ErrNotInteger\<close>: please enter a valid integer;
  \<^item> \<open>ErrNotPositive\<close>: the quantity must be a positive integer;
  \<^item> \<open>ErrNegativeDiscount\<close>: the discount must not be negative;
  \<^item> \<open>ErrDateFormat\<close>: wrong date format;
  \<^item> \<open>Result m\<close>: the message returned by \<open>add_sale\<close>;
  \<^item> \<open>ReportHeader\<close>, \<open>ReportSale row\<close>: the title of the report and the block of one sale;
  \<^item> \<open>NoSalesToUpdate\<close>, \<open>NoSalesToDelete\<close>: there is no sale record;
  \<^item> \<open>ListHeader\<close>, \<open>ListItem i sid mname sdate\<close>, \<open>ListFooter\<close>: the numbered list;
  \<^item> \<open>ErrInvalidNumber\<close>: please enter a valid number;
  \<^item> \<open>SaleUpdated sid total\<close>, \<open>UpdateFailed\<close>, \<open>SaleDeleted sid\<close>, \<open>DeleteFailed\<close>.
\<close>

type_synonym report_row = "int \<times> string \<times> string \<times> string \<times> int \<times> int \<times> int \<times> int"

datatype line =
    ErrNotInteger
  | ErrNotPositive
  | ErrNegativeDiscount
  | ErrDateFormat
  | Result msg
  | ReportHeader
  | ReportSale report_row
  | NoSalesToUpdate
  | NoSalesToDelete
  | ListHeader
  | ListItem int int string string
  | ListFooter
  | ErrInvalidNumber
  | SaleUpdated int int
  | UpdateFailed
  | SaleDeleted int
  | DeleteFailed

text \<open>
  The two library functions the input layer calls: \<open>py_int s\<close> is \<open>int(s)\<close>, with
  \<open>None\<close> for \<open>ValueError\<close>, and \<open>py_strip s\<close> is \<open>s.strip()\<close>. They are parameters of
  the model.
\<close>

record pylib =
  py_int :: "string \<Rightarrow> int option"
  py_strip :: "string \<Rightarrow> string"

text \<open>
  \<open>re.fullmatch(r"\d{4}-\d{2}-\d{2}", date_str)\<close>; among the code points below 256 the
  class \<open>\d\<close> is the ten ASCII digits.
\<close>

definition is_digit :: "char \<Rightarrow> bool" where
  "is_digit ch \<longleftrightarrow> ch \<in> set ''0123456789''"

definition is_valid_date :: "string \<Rightarrow> bool" where
  "is_valid_date date_str \<longleftrightarrow>
     length date_str = 10 \<and>
     list_all is_digit (take 4 date_str) \<and>
     date_str ! 4 = CHR ''-'' \<and>
     list_all is_digit (take 2 (drop 5 date_str)) \<and>
     date_str ! 7 = CHR ''-'' \<and>
     list_all is_digit (drop 8 date_str)"

text \<open>
  The input functions return the value read (\<open>None\<close> for an empty line) or the exception
  that ended them, with the lines left on standard input and the lines printed.
\<close>

type_synonym 'a reading = "(exn + 'a) \<times> string list \<times> line list"

fun get_valid_integer_input :: "pylib \<Rightarrow> string list \<Rightarrow> int option reading" where
  "get_valid_integer_input L [] = (Inl EOFError, [], [])"
| "get_valid_integer_input L (s # rest) =
     (if s = [] then (Inr None, rest, [])
      else
        (case py_int L s of
           Some v \<Rightarrow> (Inr (Some v), rest, [])
         | None \<Rightarrow>
             (case get_valid_integer_input L rest of
                (r, rest', out) \<Rightarrow> (r, rest', ErrNotInteger # out))))"

function get_valid_positive_integer_input :: "pylib \<Rightarrow> string list \<Rightarrow> int option reading" where
  "get_valid_positive_integer_input L xs =
     (case get_valid_integer_input L xs of
        (Inl e, rest, out) \<Rightarrow> (Inl e, rest, out)
      | (Inr None, rest, out) \<Rightarrow> (Inr None, rest, out)
      | (Inr (Some v), rest, out) \<Rightarrow>
          if v > 0 then (Inr (Some v), rest, out)
          else
            (case get_valid_positive_integer_input L rest of
               (r, rest', out') \<Rightarrow> (r, rest', out @ ErrNotPositive # out')))"
  by pat_completeness auto
termination
proof -
  have shorter: "length rest < length xs"
    if "get_valid_integer_input L xs = (Inr v, rest, out)" for L xs v rest out
    using that
  proof (induction xs arbitrary: out)
    case Nil
    then show ?case by simp
  next
    case (Cons s xs)
    then show ?case
      by (fastforce split: if_splits option.splits prod.splits)
  qed
  show ?thesis
    by (relation "measure (\<lambda>(L, xs). length xs)") (auto dest: shorter [OF sym])
qed

function get_valid_non_negative_integer_input ::
  "pylib \<Rightarrow> string list \<Rightarrow> int option reading" where
  "get_valid_non_negative_integer_input L xs =
     (case get_valid_integer_input L xs of
        (Inl e, rest, out) \<Rightarrow> (Inl e, rest, out)
      | (Inr None, rest, out) \<Rightarrow> (Inr None, rest, out)
      | (Inr (Some v), rest, out) \<Rightarrow>
          if v \<ge> 0 then (Inr (Some v), rest, out)
          else
            (case get_valid_non_negative_integer_input L rest of
               (r, rest', out') \<Rightarrow> (r, rest', out @ ErrNegativeDiscount # out')))"
  by pat_completeness auto
termination
proof -
  have shorter: "length rest < length xs"
    if "get_valid_integer_input L xs = (Inr v, rest, out)" for L xs v rest out
    using that
  proof (induction xs arbitrary: out)
    case Nil
    then show ?case by simp
  next
    case (Cons s xs)
    then show ?case
      by (fastforce split: if_splits option.splits prod.splits)
  qed
  show ?thesis
    by (relation "measure (\<lambda>(L, xs). length xs)") (auto dest: shorter [OF sym])
qed

declare get_valid_positive_integer_input.simps [simp del]
declare get_valid_non_negative_integer_input.simps [simp del]

section \<open>add_new_sale\<close>

text \<open>
  A procedure returns how it ended (\<open>Inr ()\<close> for a normal return, \<open>Inl e\<close> for an
  exception that leaves it), the connection, the rest of standard input and the lines
  it printed.
\<close>

type_synonym run = "(exn + unit) \<times> conn \<times> string list \<times> line list"

definition add_new_sale ::
  "pylib \<Rightarrow> (real \<Rightarrow> real) \<Rightarrow> faults \<Rightarrow> conn \<Rightarrow> string list \<Rightarrow> run" where
  "add_new_sale L D F c stdin =
     (case stdin of
        [] \<Rightarrow> (Inl EOFError, c, [], [])
      | sdate' # r1 \<Rightarrow>
          if \<not> is_valid_date sdate' then (Inr (), c, r1, [ErrDateFormat])
          else
            (case r1 of
               [] \<Rightarrow> (Inl EOFError, c, [], [])
             | mid' # r2 \<Rightarrow>
                 (case r2 of
                    [] \<Rightarrow> (Inl EOFError, c, [], [])
                  | bid' # r3 \<Rightarrow>
                      (case get_valid_positive_integer_input L r3 of
                         (Inl e, r4, o1) \<Rightarrow> (Inl e, c, r4, o1)
                       | (Inr None, r4, o1) \<Rightarrow> (Inr (), c, r4, o1)
                       | (Inr (Some sqty'), r4, o1) \<Rightarrow>
                           (case get_valid_non_negative_integer_input L r4 of
                              (Inl e, r5, o2) \<Rightarrow> (Inl e, c, r5, o1 @ o2)
                            | (Inr None, r5, o2) \<Rightarrow> (Inr (), c, r5, o1 @ o2)
                            | (Inr (Some sdiscount'), r5, o2) \<Rightarrow>
                                (case add_sale D F c sdate' mid' bid' sqty' sdiscount' of
                                   (Inl e, c') \<Rightarrow> (Inl e, c', r5, o1 @ o2)
                                 | (Inr (ok, m), c') \<Rightarrow>
                                     (Inr (), c', r5, o1 @ o2 @ [Result m])))))))"

section \<open>print_sale_report\<close>

text \<open>
  \<open>SELECT s.sid, s.sdate, m.mname, b.btitle, b.bprice, s.sqty, s.sdiscount, s.stotal
  FROM sale s JOIN member m ON s.mid = m.mid JOIN book b ON s.bid = b.bid ORDER BY s.sid\<close>.
\<close>

definition report_query :: "store \<Rightarrow> report_row list" where
  "report_query st =
     [(sid s, sdate s, mname m, btitle b, bprice b, sqty s, sdiscount s, stotal s).
        s \<leftarrow> sort_key sid (sales st),
        m \<leftarrow> members st, member.mid m = sale.mid s,
        b \<leftarrow> books st, book.bid b = sale.bid s]"

definition print_sale_report :: "faults \<Rightarrow> conn \<Rightarrow> (exn + unit) \<times> conn \<times> line list" where
  "print_sale_report F c =
     (if F SelReport then (Inl SqliteError, c, [])
      else
        let sales' = report_query (live c) in
        (Inr (), c, ReportHeader # map ReportSale sales'))"

section \<open>update_sale_record and delete_sale_record\<close>

text \<open>
  \<open>SELECT s.sid, m.mname, s.sdate FROM sale s JOIN member m ON s.mid=m.mid ORDER BY s.sid\<close>.
\<close>

definition list_query :: "store \<Rightarrow> (int \<times> string \<times> string) list" where
  "list_query st =
     [(sid s, mname m, sdate s).
        s \<leftarrow> sort_key sid (sales st),
        m \<leftarrow> members st, member.mid m = sale.mid s]"

text \<open>The numbered list both procedures print.\<close>

definition print_list :: "(int \<times> string \<times> string) list \<Rightarrow> line list" where
  "print_list sales' =
     ListHeader #
     map (\<lambda>(i, (k, n, d)). ListItem (int i) k n d) (enumerate 1 sales') @
     [ListFooter]"

text \<open>\<open>SELECT * FROM sale WHERE sid=?\<close> followed by \<open>fetchone\<close>.\<close>

definition select_sale :: "store \<Rightarrow> int \<Rightarrow> sale option" where
  "select_sale st k = find (\<lambda>s. sid s = k) (sales st)"

text \<open>\<open>UPDATE sale SET sdiscount=?, stotal=? WHERE sid=?\<close>.\<close>

definition update_sale :: "store \<Rightarrow> int \<Rightarrow> int \<Rightarrow> int \<Rightarrow> store" where
  "update_sale st d t k =
     st\<lparr>sales := map (\<lambda>s. if sid s = k then s\<lparr>sdiscount := d, stotal := t\<rparr> else s)
                     (sales st)\<rparr>"

text \<open>\<open>DELETE FROM sale WHERE sid=?\<close>.\<close>

definition delete_sale :: "store \<Rightarrow> int \<Rightarrow> store" where
  "delete_sale st k = st\<lparr>sales := filter (\<lambda>s. sid s \<noteq> k) (sales st)\<rparr>"

text \<open>
  The selection both procedures make: the line typed is stripped; an empty line cancels
  (\<open>Inr None\<close>); a line that is no integer, or an integer outside \<open>1..len(sales)\<close>, is
  the error \<open>ValueError\<close> of the source (\<open>Inl ()\<close>); otherwise the result is the
  \<open>sid\<close> of row \<open>idx - 1\<close> of the list.
\<close>

definition choose_sid :: "pylib \<Rightarrow> (int \<times> string \<times> string) list \<Rightarrow> string \<Rightarrow> unit + int option" where
  "choose_sid L sales' typed =
     (let choice = py_strip L typed in
      if choice = [] then Inr None
      else
        (case py_int L choice of
           None \<Rightarrow> Inl ()
         | Some idx \<Rightarrow>
             if idx < 1 \<or> idx > int (length sales') then Inl ()
             else Inr (Some (fst (sales' ! nat (idx - 1))))))"

text \<open>
  In \<open>update_sale_record\<close> the UPDATE binds the new discount and the new total: when one
  of them is outside 64 bits, \<open>OverflowError\<close> goes through the \<open>except sqlite3.Error\<close>
  clause and leaves the procedure, with nothing written and nothing rolled back.
\<close>

definition update_sale_record :: "pylib \<Rightarrow> faults \<Rightarrow> conn \<Rightarrow> string list \<Rightarrow> run" where
  "update_sale_record L F c stdin =
     (if F SelList then (Inl SqliteError, c, stdin, [])
      else
        let sales' = list_query (live c) in
        if sales' = [] then (Inr (), c, stdin, [NoSalesToUpdate])
        else
          (case stdin of
             [] \<Rightarrow> (Inl EOFError, c, [], print_list sales')
           | typed # r1 \<Rightarrow>
               (case choose_sid L sales' typed of
                  Inr None \<Rightarrow> (Inr (), c, r1, print_list sales')
                | Inl _ \<Rightarrow> (Inr (), c, r1, print_list sales' @ [ErrInvalidNumber])
                | Inr (Some sid') \<Rightarrow>
                    if F SelSale then (Inl SqliteError, c, r1, print_list sales')
                    else
                      let sale' = select_sale (live c) sid' in
                      (case get_valid_non_negative_integer_input L r1 of
                         (Inl e, r2, o1) \<Rightarrow> (Inl e, c, r2, print_list sales' @ o1)
                       | (Inr None, r2, o1) \<Rightarrow> (Inr (), c, r2, print_list sales' @ o1)
                       | (Inr (Some new_discount), r2, o1) \<Rightarrow>
                           (case sale' of
                              None \<Rightarrow> (Inl TypeError, c, r2, print_list sales' @ o1)
                            | Some s \<Rightarrow>
                                if F SelPrice then (Inl SqliteError, c, r2, print_list sales' @ o1)
                                else
                                  (case select_book (live c) (sale.bid s) of
                                     None \<Rightarrow> (Inl TypeError, c, r2, print_list sales' @ o1)
                                   | Some b \<Rightarrow>
                                       let price = bprice b;
                                           new_total = price * sqty s - new_discount
                                       in
                                       if F UpdSale
                                       then (Inr (), rollback c, r2,
                                             print_list sales' @ o1 @ [UpdateFailed])
                                       else if \<not> (in_i64 new_discount \<and> in_i64 new_total)
                                       then (Inl OverflowError, c, r2, print_list sales' @ o1)
                                       else
                                         let c1 = c\<lparr>live := update_sale (live c) new_discount new_total sid'\<rparr> in
                                         if F Commit
                                         then (Inr (), rollback c1, r2,
                                               print_list sales' @ o1 @ [UpdateFailed])
                                         else (Inr (), commit c1, r2,
                                               print_list sales' @ o1 @
                                               [SaleUpdated sid' new_total])))))))"

definition delete_sale_record :: "pylib \<Rightarrow> faults \<Rightarrow> conn \<Rightarrow> string list \<Rightarrow> run" where
  "delete_sale_record L F c stdin =
     (if F SelList then (Inl SqliteError, c, stdin, [])
      else
        let sales' = list_query (live c) in
        if sales' = [] then (Inr (), c, stdin, [NoSalesToDelete])
        else
          (case stdin of
             [] \<Rightarrow> (Inl EOFError, c, [], print_list sales')
           | typed # r1 \<Rightarrow>
               (case choose_sid L sales' typed of
                  Inr None \<Rightarrow> (Inr (), c, r1, print_list sales')
                | Inl _ \<Rightarrow> (Inr (), c, r1, print_list sales' @ [ErrInvalidNumber])
                | Inr (Some sid') \<Rightarrow>
                    if F DelSale
                    then (Inr (), rollback c, r1, print_list sales' @ [DeleteFailed])
                    else
                      let c1 = c\<lparr>live := delete_sale (live c) sid'\<rparr> in
                      if F Commit
                      then (Inr (), rollback c1, r1, print_list sales' @ [DeleteFailed])
                      else (Inr (), commit c1, r1, print_list sales' @ [SaleDeleted sid']))))"

section \<open>Well-formed stores and an instance of the library\<close>

text \<open>
  The PRIMARY KEY constraints of the schema: no two rows of a table have the same key.
\<close>

definition wf_store :: "store \<Rightarrow> bool" where
  "wf_store st \<longleftrightarrow>
     distinct (map member.mid (members st)) \<and>
     distinct (map book.bid (books st)) \<and>
     distinct (map sid (sales st))"

text \<open>Every book has a non-negative stock.\<close>

definition stock_ok :: "store \<Rightarrow> bool" where
  "stock_ok st \<longleftrightarrow> list_all (\<lambda>b. 0 \<le> num_val (bstock b)) (books st)"

text \<open>
  What is used of the rounding to the nearest double: it is monotone, it leaves 0 as it
  is, and it leaves a double as it is. A REAL stock in the database is a double.
\<close>

definition rounding :: "(real \<Rightarrow> real) \<Rightarrow> bool" where
  "rounding D \<longleftrightarrow> mono D \<and> D 0 = 0 \<and> (\<forall>x. D (D x) = D x)"

definition real_stock_ok :: "(real \<Rightarrow> real) \<Rightarrow> store \<Rightarrow> bool" where
  "real_stock_ok D st \<longleftrightarrow>
     list_all (\<lambda>b. case bstock b of IntV n \<Rightarrow> True | RealV r \<Rightarrow> D r = r) (books st)"

text \<open>
  For the examples, in which every stock stays an INTEGER and no floating-point operation
  is carried out: a rounding that changes nothing.
\<close>

definition no_rounding :: "real \<Rightarrow> real" where
  "no_rounding x = x"

text \<open>
  For the examples: an instance of the two library functions that agrees with Python
  on the lines the examples type, which are decimal numerals with an optional minus
  sign, possibly between blanks.
\<close>

fun nat_of_digits :: "nat \<Rightarrow> string \<Rightarrow> nat option" where
  "nat_of_digits acc [] = Some acc"
| "nat_of_digits acc (ch # cs) =
     (if is_digit ch then nat_of_digits (10 * acc + (of_char ch - 48)) cs else None)"

definition dec_int :: "string \<Rightarrow> int option" where
  "dec_int s =
     (case s of
        [] \<Rightarrow> None
      | ch # cs \<Rightarrow>
          if ch = CHR ''-''
          then (if cs = [] then None else map_option (\<lambda>n. - int n) (nat_of_digits 0 cs))
          else map_option int (nat_of_digits 0 s))"

definition strip_blanks :: "string \<Rightarrow> string" where
  "strip_blanks s =
     rev (dropWhile (\<lambda>ch. ch = CHR '' '') (rev (dropWhile (\<lambda>ch. ch = CHR '' '') s)))"

definition dec_lib :: pylib where
  "dec_lib = \<lparr>py_int = dec_int, py_strip = strip_blanks\<rparr>"



section \<open>Facts about the seed data\<close>

lemma no_faults_simp [simp]: "\<not> no_faults s"
  by (simp add: no_faults_def)

lemma seed_clean: "live seed_conn = saved seed_conn"
  by (simp add: seed_conn_def)

lemma seed_wf: "wf_store (live seed_conn)"
  by (simp add: wf_store_def seed_conn_def seed_store_def)

lemma seed_stock_ok: "stock_ok (live seed_conn)" "stock_ok (saved seed_conn)"
  by (simp_all add: stock_ok_def seed_conn_def seed_store_def)

lemma seed_member_M001:
  "select_member (live seed_conn) ''M001'' =
     Some \<lparr>member.mid = ''M001'', mname = ''Alice'', mphone = ''0912-345678'',
           memail = Some ''alice@example.com''\<rparr>"
  by (simp add: seed_conn_def seed_store_def select_member_def)

lemma seed_book_B001:
  "select_book (live seed_conn) ''B001'' =
     Some \<lparr>book.bid = ''B001'', btitle = ''Python Programming'', bprice = 600, bstock = IntV 50\<rparr>"
  by (simp add: seed_conn_def seed_store_def select_book_def)

lemma seed_sale_1:
  "select_sale (live seed_conn) 1 =
     Some \<lparr>sid = 1, sdate = ''2024-01-15'', mid = ''M001'', bid = ''B001'',
           sqty = 2, sdiscount = 100, stotal = 1100\<rparr>"
  by (simp add: seed_conn_def seed_store_def select_sale_def)

lemma seed_sale_2:
  "select_sale (live seed_conn) 2 =
     Some \<lparr>sid = 2, sdate = ''2024-01-16'', mid = ''M002'', bid = ''B002'',
           sqty = 1, sdiscount = 50, stotal = 750\<rparr>"
  by (simp add: seed_conn_def seed_store_def select_sale_def)

lemma seed_sids: "map sid (sales (live seed_conn)) = [1, 2, 3, 4, 5]"
  by (simp add: seed_conn_def seed_store_def)

lemma list_query_seed:
  "list_query (live seed_conn) =
     [(1, ''Alice'', ''2024-01-15''), (2, ''Bob'', ''2024-01-16''),
      (3, ''Alice'', ''2024-01-17''), (4, ''Cathy'', ''2024-01-18''),
      (5, ''Bob'', ''2024-01-19'')]"
  by (simp add: list_query_def seed_conn_def seed_store_def)

lemma dec_lib_strip:
  "py_strip dec_lib ''1'' = ''1''" "py_strip dec_lib ''2'' = ''2''"
  "py_strip dec_lib ''9'' = ''9''"
  by (simp_all add: dec_lib_def strip_blanks_def)

lemma dec_lib_int:
  "py_int dec_lib ''0'' = Some 0" "py_int dec_lib ''1'' = Some 1"
  "py_int dec_lib ''2'' = Some 2" "py_int dec_lib ''9'' = Some 9"
  "py_int dec_lib ''100'' = Some 100"
  by (simp_all add: dec_lib_def dec_int_def is_digit_def)

section \<open>Creating a sale\<close>

lemma in_i64_small [simp]:
  "- 9223372036854775808 \<le> n \<Longrightarrow> n \<le> 9223372036854775807 \<Longrightarrow> in_i64 n"
  by (simp add: in_i64_def)

lemma find_map_update:
  assumes "\<And>x. key (upd x) = key x"
  shows "find (\<lambda>x. key x = k) (map (\<lambda>x. if key x = k then upd x else x) xs) =
         map_option upd (find (\<lambda>x. key x = k) xs)"
  using assms by (induction xs) auto

lemma select_book_update_stock:
  "select_book (update_stock D st q k) k =
   map_option (\<lambda>b. b\<lparr>bstock := sub_stock D (bstock b) q\<rparr>) (select_book st k)"
  unfolding select_book_def update_stock_def
  using find_map_update [where upd = "\<lambda>b. b\<lparr>bstock := sub_stock D (bstock b) q\<rparr>"
      and key = book.bid and k = k and xs = "books st"]
  by simp

lemma select_book_insert_sale [simp]:
  "select_book (insert_sale st d m b q disc t) k = select_book st k"
  by (simp add: select_book_def insert_sale_def)

text \<open>
  The successful path of \<open>add_sale\<close>: both writes are applied to the live state, which is
  then committed.
\<close>

lemma add_sale_ok:
  assumes "select_member (live c) mid' = Some mr"
    and "select_book (live c) bid' = Some b"
    and "\<not> num_less (bstock b) sqty'"
    and "in_i64 sqty'" and "in_i64 sdiscount'" and "in_i64 (bprice b * sqty' - sdiscount')"
    and "in_i64 (next_sid (live c))"
    and "\<not> F SelMember" "\<not> F SelBook" "\<not> F InsSale" "\<not> F UpdBook" "\<not> F Commit"
  shows "add_sale D F c sdate' mid' bid' sqty' sdiscount' =
           (Inr (True, MsgSaleAdded (bprice b * sqty' - sdiscount')),
            \<lparr>saved = update_stock D (insert_sale (live c) sdate' mid' bid' sqty' sdiscount'
                        (bprice b * sqty' - sdiscount')) sqty' bid',
             live = update_stock D (insert_sale (live c) sdate' mid' bid' sqty' sdiscount'
                        (bprice b * sqty' - sdiscount')) sqty' bid'\<rparr>)"
  using assms by (simp add: add_sale_def Let_def commit_def)

lemma add_sale_ok_no_faults:
  assumes "select_member (live c) mid' = Some mr"
    and "select_book (live c) bid' = Some b"
    and "\<not> num_less (bstock b) sqty'"
    and "in_i64 sqty'" and "in_i64 sdiscount'" and "in_i64 (bprice b * sqty' - sdiscount')"
    and "in_i64 (next_sid (live c))"
  shows "add_sale D no_faults c sdate' mid' bid' sqty' sdiscount' =
           (Inr (True, MsgSaleAdded (bprice b * sqty' - sdiscount')),
            \<lparr>saved = update_stock D (insert_sale (live c) sdate' mid' bid' sqty' sdiscount'
                        (bprice b * sqty' - sdiscount')) sqty' bid',
             live = update_stock D (insert_sale (live c) sdate' mid' bid' sqty' sdiscount'
                        (bprice b * sqty' - sdiscount')) sqty' bid'\<rparr>)"
  by (rule add_sale_ok [OF assms]) simp_all

text \<open>
  What a successful \<open>add_sale\<close> has done, whichever way it was called.
\<close>

lemma add_sale_True:
  assumes "fst (add_sale D F c sdate' mid' bid' sqty' sdiscount') = Inr (True, m)"
  shows "\<exists>mr b. select_member (live c) mid' = Some mr \<and> select_book (live c) bid' = Some b \<and>
           m = MsgSaleAdded (bprice b * sqty' - sdiscount') \<and>
           snd (add_sale D F c sdate' mid' bid' sqty' sdiscount') =
             \<lparr>saved = update_stock D (insert_sale (live c) sdate' mid' bid' sqty' sdiscount'
                         (bprice b * sqty' - sdiscount')) sqty' bid',
              live = update_stock D (insert_sale (live c) sdate' mid' bid' sqty' sdiscount'
                         (bprice b * sqty' - sdiscount')) sqty' bid'\<rparr>"
  using assms
  by (auto simp: add_sale_def db_error_def Let_def commit_def split: option.splits if_splits)

lemma seed_next_sid: "next_sid (live seed_conn) = 6"
  by (simp add: next_sid_def seed_conn_def seed_store_def)

text \<open>
  C1, as the code has it. On the seed data, one copy of \<open>B001\<close> (stock 50) for the member
  \<open>M001\<close> with the discount \<open>2^63\<close>: the member and the book exist and the quantity is
  within the stock, but the discount cannot be bound to the INSERT. \<open>add_sale\<close> is left
  by \<open>OverflowError\<close> and nothing is stored. The rounding plays no part here.
\<close>

theorem add_sale_success_counterexample:
  "select_member (live seed_conn) ''M001'' =
     Some \<lparr>member.mid = ''M001'', mname = ''Alice'', mphone = ''0912-345678'',
           memail = Some ''alice@example.com''\<rparr> \<and>
   select_book (live seed_conn) ''B001'' =
     Some \<lparr>book.bid = ''B001'', btitle = ''Python Programming'', bprice = 600,
           bstock = IntV 50\<rparr> \<and>
   \<not> num_less (IntV 50) 1 \<and>
   add_sale no_rounding no_faults seed_conn ''2024-02-01'' ''M001'' ''B001'' 1
     9223372036854775808 = (Inl OverflowError, seed_conn)"
  by (simp add: seed_member_M001 seed_book_B001 add_sale_def in_i64_def)

text \<open>
  C1, amended. A create-sale request that names an existing member and an existing book
  with an INTEGER stock and asks for no more than that stock succeeds, when no statement
  raises a database error and the quantity, the discount, the total, the stock that
  results and the next \<open>sid\<close> are 64-bit integers: \<open>add_sale\<close> returns \<open>True\<close> with the
  total \<open>bprice * sqty - sdiscount\<close> in its message; the committed state is the live one;
  the book's stock is its stock before minus the quantity; the sale table has one more
  row, the last one, with the next \<open>sid\<close>, the values of the request and that total.
  Nothing else is assumed about the discount, so the total may be negative.
\<close>

theorem add_sale_success:
  assumes "select_member (live c) mid' = Some mr"
    and "select_book (live c) bid' = Some b"
    and "bstock b = IntV n"
    and "sqty' \<le> n"
    and "in_i64 sqty'" and "in_i64 sdiscount'" and "in_i64 (bprice b * sqty' - sdiscount')"
    and "in_i64 (n - sqty')"
    and "in_i64 (next_sid (live c))"
  shows "let total' = bprice b * sqty' - sdiscount';
             r = add_sale D no_faults c sdate' mid' bid' sqty' sdiscount';
             c' = snd r
         in fst r = Inr (True, MsgSaleAdded total') \<and>
            live c' = saved c' \<and>
            select_book (saved c') bid' = Some (b\<lparr>bstock := IntV (n - sqty')\<rparr>) \<and>
            sales (saved c') = sales (live c) @
              [\<lparr>sid = next_sid (live c), sdate = sdate', mid = mid', bid = bid',
                sqty = sqty', sdiscount = sdiscount', stotal = total'\<rparr>] \<and>
            members (saved c') = members (live c)"
proof -
  from assms(3,4) have g: "\<not> num_less (bstock b) sqty'"
    by simp
  show ?thesis
    unfolding Let_def add_sale_ok_no_faults [OF assms(1,2) g assms(5,6,7,9)]
    by (simp add: select_book_update_stock assms(2,3,8))
       (simp add: update_stock_def insert_sale_def)
qed

text \<open>
  The scenario of the specification: on the seed data, three copies of \<open>B001\<close> (price 600,
  stock 50) with discount 50 give the total 1750 and leave the stock 47.
\<close>

theorem add_sale_success_witness:
  "select_member (live seed_conn) ''M001'' =
     Some \<lparr>member.mid = ''M001'', mname = ''Alice'', mphone = ''0912-345678'',
           memail = Some ''alice@example.com''\<rparr> \<and>
   select_book (live seed_conn) ''B001'' =
     Some \<lparr>book.bid = ''B001'', btitle = ''Python Programming'', bprice = 600,
           bstock = IntV 50\<rparr> \<and>
   in_i64 3 \<and> in_i64 50 \<and> in_i64 (600 * 3 - 50) \<and> in_i64 (50 - 3) \<and>
   in_i64 (next_sid (live seed_conn)) \<and>
   fst (add_sale no_rounding no_faults seed_conn ''2024-02-01'' ''M001'' ''B001'' 3 50) =
     Inr (True, MsgSaleAdded 1750) \<and>
   select_book
     (saved (snd (add_sale no_rounding no_faults seed_conn ''2024-02-01'' ''M001'' ''B001'' 3 50)))
     ''B001'' =
     Some \<lparr>book.bid = ''B001'', btitle = ''Python Programming'', bprice = 600,
           bstock = IntV 47\<rparr>"
proof -
  let ?b = "\<lparr>book.bid = ''B001'', btitle = ''Python Programming'', bprice = 600,
             bstock = IntV 50\<rparr>"
  have s: "bstock ?b = IntV 50" and q: "(3::int) \<le> 50"
    by simp_all
  have i: "in_i64 3" "in_i64 50" "in_i64 (bprice ?b * 3 - 50)" "in_i64 (50 - 3)"
    "in_i64 (next_sid (live seed_conn))"
    by (simp_all add: seed_next_sid)
  from add_sale_success [OF seed_member_M001 seed_book_B001 s q i,
        where sdate' = "''2024-02-01''" and D = no_rounding]
  have "fst (add_sale no_rounding no_faults seed_conn ''2024-02-01'' ''M001'' ''B001'' 3 50) =
     Inr (True, MsgSaleAdded 1750) \<and>
   select_book
     (saved (snd (add_sale no_rounding no_faults seed_conn ''2024-02-01'' ''M001'' ''B001'' 3 50)))
     ''B001'' =
     Some \<lparr>book.bid = ''B001'', btitle = ''Python Programming'', bprice = 600,
           bstock = IntV 47\<rparr>"
    by (simp add: Let_def)
  with seed_member_M001 seed_book_B001 i show ?thesis
    by simp
qed

text \<open>
  C3. A create-sale request that names an existing member and an existing book whose
  stock is less than the quantity fails with the insufficient-stock message, which
  carries the stock the book has; the connection, hence the book's stock and the sale
  rows, is as before. The two lookups are assumed not to raise a database error.
\<close>

theorem add_sale_insufficient_stock:
  assumes "select_member (live c) mid' = Some mr"
    and "select_book (live c) bid' = Some b"
    and "num_less (bstock b) sqty'"
    and "\<not> F SelMember" and "\<not> F SelBook"
  shows "add_sale D F c sdate' mid' bid' sqty' sdiscount' =
           (Inr (False, MsgInsufficientStock (bstock b)), c)"
  using assms by (simp add: add_sale_def)

theorem add_sale_insufficient_stock_witness:
  "select_member (live seed_conn) ''M001'' =
     Some \<lparr>member.mid = ''M001'', mname = ''Alice'', mphone = ''0912-345678'',
           memail = Some ''alice@example.com''\<rparr> \<and>
   select_book (live seed_conn) ''B001'' =
     Some \<lparr>book.bid = ''B001'', btitle = ''Python Programming'', bprice = 600,
           bstock = IntV 50\<rparr> \<and>
   num_less (IntV 50) 51 \<and>
   add_sale no_rounding no_faults seed_conn ''2024-02-01'' ''M001'' ''B001'' 51 0 =
     (Inr (False, MsgInsufficientStock (IntV 50)), seed_conn)"
proof -
  have q: "num_less (bstock \<lparr>book.bid = ''B001'', btitle = ''Python Programming'',
                            bprice = 600, bstock = IntV 50\<rparr>) 51"
    by simp
  show ?thesis
    using seed_member_M001 seed_book_B001
      add_sale_insufficient_stock [OF seed_member_M001 seed_book_B001 q,
        where F = no_faults and D = no_rounding and sdate' = "''2024-02-01''"
          and sdiscount' = 0]
    by simp
qed

text \<open>
  C4. A create-sale request whose member identifier or book identifier is the key of no
  row fails with the invalid-identifier message (the error the specification calls
  NotFound), and the connection, hence every table, is as before. The two lookups are
  assumed not to raise a database error.
\<close>

theorem add_sale_not_found:
  assumes "select_member (live c) mid' = None \<or> select_book (live c) bid' = None"
    and "\<not> F SelMember" and "\<not> F SelBook"
  shows "add_sale D F c sdate' mid' bid' sqty' sdiscount' = (Inr (False, MsgInvalidIds), c)"
  using assms by (auto simp: add_sale_def split: option.splits)

theorem add_sale_not_found_witness:
  "select_member (live seed_conn) ''M009'' = None \<and>
   add_sale no_rounding no_faults seed_conn ''2024-02-01'' ''M009'' ''B001'' 1 0 =
     (Inr (False, MsgInvalidIds), seed_conn)"
proof -
  have m: "select_member (live seed_conn) ''M009'' = None"
    by (simp add: seed_conn_def seed_store_def select_member_def)
  then have "select_member (live seed_conn) ''M009'' = None \<or>
             select_book (live seed_conn) ''B001'' = None"
    by simp
  from add_sale_not_found [OF this, where F = no_faults and D = no_rounding
      and sdate' = "''2024-02-01''" and sqty' = 1 and sdiscount' = 0] m
  show ?thesis by simp
qed

section \<open>The checks of the input layer\<close>

lemma positive_input_positive:
  "get_valid_positive_integer_input L xs = (Inr (Some v), rest, out) \<Longrightarrow> 0 < v"
proof (induction L xs arbitrary: out rule: get_valid_positive_integer_input.induct)
  case (1 L xs)
  show ?case
  proof (cases "get_valid_integer_input L xs")
    case (fields r rest1 out1)
    show ?thesis
    proof (cases r)
      case (Inl e)
      with fields "1.prems" show ?thesis
        by (simp add: get_valid_positive_integer_input.simps [of L xs])
    next
      case (Inr w)
      show ?thesis
      proof (cases w)
        case None
        with fields Inr "1.prems" show ?thesis
          by (simp add: get_valid_positive_integer_input.simps [of L xs])
      next
        case (Some u)
        show ?thesis
        proof (cases "0 < u")
          case True
          with fields Inr Some "1.prems" show ?thesis
            by (simp add: get_valid_positive_integer_input.simps [of L xs])
        next
          case False
          obtain r2 rest2 out2
            where rec: "get_valid_positive_integer_input L rest1 = (r2, rest2, out2)"
            by (cases "get_valid_positive_integer_input L rest1") auto
          with fields Inr Some False "1.prems" have "r2 = Inr (Some v) \<and> rest2 = rest"
            by (simp add: get_valid_positive_integer_input.simps [of L xs])
          with rec "1.IH" [OF fields [symmetric] Inr Some refl False, of out2] show ?thesis
            by simp
        qed
      qed
    qed
  qed
qed

lemma add_new_sale_bad_date:
  "\<not> is_valid_date sdate' \<Longrightarrow>
   add_new_sale L D F c (sdate' # rest) = (Inr (), c, rest, [ErrDateFormat])"
  by (simp add: add_new_sale_def)

text \<open>
  C10, as the code has it. On the seed data, the quantity \<open>-2^63 - 1\<close> is below the stock
  of \<open>B001\<close>, and the member and the book exist, but the quantity cannot be bound to the
  INSERT: \<open>add_sale\<close> is left by \<open>OverflowError\<close>, no row is inserted and the stock is as it
  was. The rounding plays no part here.
\<close>

theorem add_sale_unchecked_counterexample:
  "select_member (live seed_conn) ''M001'' =
     Some \<lparr>member.mid = ''M001'', mname = ''Alice'', mphone = ''0912-345678'',
           memail = Some ''alice@example.com''\<rparr> \<and>
   select_book (live seed_conn) ''B001'' =
     Some \<lparr>book.bid = ''B001'', btitle = ''Python Programming'', bprice = 600,
           bstock = IntV 50\<rparr> \<and>
   \<not> num_less (IntV 50) (- 9223372036854775809) \<and>
   add_sale no_rounding no_faults seed_conn ''tomorrow'' ''M001'' ''B001''
     (- 9223372036854775809) 0 = (Inl OverflowError, seed_conn)"
  by (simp add: seed_member_M001 seed_book_B001 add_sale_def in_i64_def)

text \<open>
  C10, amended. \<open>add_sale\<close> itself checks neither the sign of the quantity nor the form of
  the date: with an existing member, an existing book with an INTEGER stock, any date
  string and any quantity that is at most the stock (zero and negative ones included),
  it succeeds when no statement raises a database error and the quantity, the discount,
  the total, the stock that results and the next \<open>sid\<close> are 64-bit integers; it inserts
  one row with that date and quantity, and sets the stock to the stock before minus the
  quantity, which is more than before when the quantity is negative. The two checks are
  made by the input layer: \<open>add_new_sale\<close> prints the date-format error and returns,
  leaving the connection as it was, when the date does not match, and
  \<open>get_valid_positive_integer_input\<close> only ever returns a positive quantity.
\<close>

theorem add_sale_unchecked:
  assumes "select_member (live c) mid' = Some mr"
    and "select_book (live c) bid' = Some b"
    and "bstock b = IntV n"
    and "sqty' \<le> n"
    and "in_i64 sqty'" and "in_i64 sdiscount'" and "in_i64 (bprice b * sqty' - sdiscount')"
    and "in_i64 (n - sqty')"
    and "in_i64 (next_sid (live c))"
  shows "(let r = add_sale D no_faults c sdate' mid' bid' sqty' sdiscount';
              c' = snd r
          in fst r = Inr (True, MsgSaleAdded (bprice b * sqty' - sdiscount')) \<and>
             map_option bstock (select_book (live c') bid') = Some (IntV (n - sqty')) \<and>
             (sqty' < 0 \<longrightarrow>
                (\<exists>b'. select_book (live c') bid' = Some b' \<and>
                      num_val (bstock b) < num_val (bstock b'))) \<and>
             length (sales (live c')) = Suc (length (sales (live c))) \<and>
             sdate (last (sales (live c'))) = sdate' \<and>
             sqty (last (sales (live c'))) = sqty') \<and>
         (\<not> is_valid_date sdate' \<longrightarrow>
            add_new_sale L D F c (sdate' # rest) = (Inr (), c, rest, [ErrDateFormat])) \<and>
         (\<forall>v rest' out. get_valid_positive_integer_input L rest = (Inr (Some v), rest', out)
            \<longrightarrow> 0 < v)"
proof -
  from assms(3,4) have g: "\<not> num_less (bstock b) sqty'"
    by simp
  have "let r = add_sale D no_faults c sdate' mid' bid' sqty' sdiscount';
              c' = snd r
          in fst r = Inr (True, MsgSaleAdded (bprice b * sqty' - sdiscount')) \<and>
             map_option bstock (select_book (live c') bid') = Some (IntV (n - sqty')) \<and>
             (sqty' < 0 \<longrightarrow>
                (\<exists>b'. select_book (live c') bid' = Some b' \<and>
                      num_val (bstock b) < num_val (bstock b'))) \<and>
             length (sales (live c')) = Suc (length (sales (live c))) \<and>
             sdate (last (sales (live c'))) = sdate' \<and>
             sqty (last (sales (live c'))) = sqty'"
    unfolding Let_def add_sale_ok_no_faults [OF assms(1,2) g assms(5,6,7,9)]
    by (simp add: select_book_update_stock assms(2,3,8))
       (simp add: update_stock_def insert_sale_def)
  then show ?thesis
    using add_new_sale_bad_date positive_input_positive by blast
qed

text \<open>
  On the seed data, with the date \<open>tomorrow\<close> and the quantity \<open>-5\<close>: \<open>add_sale\<close> accepts
  both and the stock of \<open>B001\<close> goes from 50 to 55, while \<open>add_new_sale\<close> stops at the date.
\<close>

theorem add_sale_unchecked_witness:
  "select_member (live seed_conn) ''M001'' =
     Some \<lparr>member.mid = ''M001'', mname = ''Alice'', mphone = ''0912-345678'',
           memail = Some ''alice@example.com''\<rparr> \<and>
   select_book (live seed_conn) ''B001'' =
     Some \<lparr>book.bid = ''B001'', btitle = ''Python Programming'', bprice = 600,
           bstock = IntV 50\<rparr> \<and>
   in_i64 (- 5) \<and> in_i64 0 \<and> in_i64 (600 * (- 5) - 0) \<and> in_i64 (50 - (- 5)) \<and>
   in_i64 (next_sid (live seed_conn)) \<and>
   \<not> is_valid_date ''tomorrow'' \<and>
   fst (add_sale no_rounding no_faults seed_conn ''tomorrow'' ''M001'' ''B001'' (- 5) 0) =
     Inr (True, MsgSaleAdded (- 3000)) \<and>
   map_option bstock
     (select_book
        (live (snd (add_sale no_rounding no_faults seed_conn ''tomorrow'' ''M001'' ''B001'' (- 5) 0)))
        ''B001'') = Some (IntV 55) \<and>
   add_new_sale dec_lib no_rounding no_faults seed_conn [''tomorrow'', ''M001''] =
     (Inr (), seed_conn, [''M001''], [ErrDateFormat])"
proof -
  let ?b = "\<lparr>book.bid = ''B001'', btitle = ''Python Programming'', bprice = 600,
             bstock = IntV 50\<rparr>"
  have s: "bstock ?b = IntV 50" and q: "(- 5::int) \<le> 50"
    by simp_all
  have i: "in_i64 (- 5)" "in_i64 0" "in_i64 (bprice ?b * (- 5) - 0)" "in_i64 (50 - (- 5))"
    "in_i64 (next_sid (live seed_conn))"
    by (simp_all add: seed_next_sid)
  have d: "\<not> is_valid_date ''tomorrow''"
    by (simp add: is_valid_date_def)
  from add_sale_unchecked [OF seed_member_M001 seed_book_B001 s q i,
        where sdate' = "''tomorrow''" and D = no_rounding and L = dec_lib and F = no_faults
          and rest = "[''M001'']"] d
  have "fst (add_sale no_rounding no_faults seed_conn ''tomorrow'' ''M001'' ''B001'' (- 5) 0) =
     Inr (True, MsgSaleAdded (- 3000)) \<and>
   map_option bstock
     (select_book
        (live (snd (add_sale no_rounding no_faults seed_conn ''tomorrow'' ''M001'' ''B001'' (- 5) 0)))
        ''B001'') = Some (IntV 55) \<and>
   add_new_sale dec_lib no_rounding no_faults seed_conn [''tomorrow'', ''M001''] =
     (Inr (), seed_conn, [''M001''], [ErrDateFormat])"
    by (simp add: Let_def)
  with seed_member_M001 seed_book_B001 i d show ?thesis
    by simp
qed

section \<open>Transactions\<close>

lemma rollback_clean: "live c = saved c \<Longrightarrow> rollback c = c"
  by (simp add: rollback_def)

lemma rollback_live_update: "live c = saved c \<Longrightarrow> rollback (c\<lparr>live := st\<rparr>) = c"
  by (simp add: rollback_def)

lemma add_sale_atomic:
  assumes "live c = saved c"
  shows "case add_sale D F c sdate' mid' bid' sqty' sdiscount' of
           (r, c') \<Rightarrow>
             live c' = saved c' \<and>
             (case r of
                Inl e \<Rightarrow> c' = c
              | Inr (ok, m) \<Rightarrow>
                  if ok
                  then \<exists>b. select_book (saved c) bid' = Some b \<and>
                         m = MsgSaleAdded (bprice b * sqty' - sdiscount') \<and>
                         saved c' = update_stock D (insert_sale (saved c) sdate' mid' bid' sqty'
                                      sdiscount' (bprice b * sqty' - sdiscount')) sqty' bid'
                  else c' = c \<and> (\<forall>t. m \<noteq> MsgSaleAdded t)) \<and>
             (F InsSale \<or> F UpdBook \<or> F Commit \<longrightarrow> (\<forall>m. r \<noteq> Inr (True, m)))"
  using assms
  by (auto simp: add_sale_def db_error_def Let_def commit_def rollback_clean
      rollback_live_update split: option.splits)

lemma update_sale_record_atomic:
  assumes "live c = saved c"
  shows "case update_sale_record L F c stdin of
           (r, c', rest, out) \<Rightarrow>
             live c' = saved c' \<and>
             (c' = c \<or>
              (\<exists>d t k. saved c' = update_sale (saved c) d t k \<and>
                 out \<noteq> [] \<and> last out = SaleUpdated k t)) \<and>
             (F UpdSale \<or> F Commit \<longrightarrow> c' = c)"
  using assms
  by (auto simp: update_sale_record_def Let_def commit_def rollback_clean
      rollback_live_update split: option.splits list.splits sum.splits prod.splits)

lemma delete_sale_record_atomic:
  assumes "live c = saved c"
  shows "case delete_sale_record L F c stdin of
           (r, c', rest, out) \<Rightarrow>
             live c' = saved c' \<and>
             (c' = c \<or>
              (\<exists>k. saved c' = delete_sale (saved c) k \<and>
                 out \<noteq> [] \<and> last out = SaleDeleted k)) \<and>
             (F DelSale \<or> F Commit \<longrightarrow> c' = c)"
  using assms
  by (auto simp: delete_sale_record_def Let_def commit_def rollback_clean
      rollback_live_update split: option.splits list.splits sum.splits prod.splits)

text \<open>
  C2. Each of the three mutating operations is atomic, whichever statements raise a
  database error. Started on a connection without uncommitted changes, it ends on one
  without uncommitted changes, and
  \<^item> \<open>add_sale\<close> either returns \<open>True\<close>, and then the committed state is the one before
    with both the sale row inserted and the stock decremented, or returns \<open>False\<close> with a
    message that is not the success message, or is left by an exception, and then the
    connection is as it was; when the insertion, the stock update or the commit raises
    a database error, it does not return \<open>True\<close>;
  \<^item> \<open>update_sale_record\<close> either leaves the connection as it was or has committed its one
    update and printed the success line last; when the update or the commit raises, the
    connection is as it was;
  \<^item> \<open>delete_sale_record\<close> likewise with its one deletion.
\<close>

theorem operations_atomic:
  assumes "live c = saved c"
  shows "(case add_sale D F c sdate' mid' bid' sqty' sdiscount' of
            (r, c') \<Rightarrow>
              live c' = saved c' \<and>
              (case r of
                 Inl e \<Rightarrow> c' = c
               | Inr (ok, m) \<Rightarrow>
                   if ok
                   then \<exists>b. select_book (saved c) bid' = Some b \<and>
                          m = MsgSaleAdded (bprice b * sqty' - sdiscount') \<and>
                          saved c' = update_stock D (insert_sale (saved c) sdate' mid' bid' sqty'
                                       sdiscount' (bprice b * sqty' - sdiscount')) sqty' bid'
                   else c' = c \<and> (\<forall>t. m \<noteq> MsgSaleAdded t)) \<and>
              (F InsSale \<or> F UpdBook \<or> F Commit \<longrightarrow> (\<forall>m. r \<noteq> Inr (True, m)))) \<and>
         (case update_sale_record L F c stdin of
            (r, c', rest, out) \<Rightarrow>
              live c' = saved c' \<and>
              (c' = c \<or>
               (\<exists>d t k. saved c' = update_sale (saved c) d t k \<and>
                  out \<noteq> [] \<and> last out = SaleUpdated k t)) \<and>
              (F UpdSale \<or> F Commit \<longrightarrow> c' = c)) \<and>
         (case delete_sale_record L F c stdin of
            (r, c', rest, out) \<Rightarrow>
              live c' = saved c' \<and>
              (c' = c \<or>
               (\<exists>k. saved c' = delete_sale (saved c) k \<and>
                  out \<noteq> [] \<and> last out = SaleDeleted k)) \<and>
              (F DelSale \<or> F Commit \<longrightarrow> c' = c))"
  by (intro conjI add_sale_atomic update_sale_record_atomic delete_sale_record_atomic assms)

text \<open>
  On the seed data: when the stock update raises after the row was inserted, \<open>add_sale\<close>
  reports the database error and the connection is the seed connection again; when the
  commit of a deletion raises, nothing is deleted.
\<close>

theorem operations_atomic_witness:
  "live seed_conn = saved seed_conn \<and>
   add_sale no_rounding (\<lambda>s. s = UpdBook) seed_conn ''2024-02-01'' ''M001'' ''B001'' 3 50 =
     (Inr (False, MsgDbError), seed_conn) \<and>
   fst (snd (delete_sale_record dec_lib (\<lambda>s. s = Commit) seed_conn [''2''])) = seed_conn"
proof -
  have a: "add_sale no_rounding (\<lambda>s. s = UpdBook) seed_conn ''2024-02-01'' ''M001'' ''B001'' 3 50 =
     (Inr (False, MsgDbError), seed_conn)"
    by (simp add: add_sale_def seed_member_M001 seed_book_B001 db_error_def Let_def
        seed_next_sid rollback_live_update [OF seed_clean])
  have d: "fst (snd (delete_sale_record dec_lib (\<lambda>s. s = Commit) seed_conn [''2''])) = seed_conn"
    by (simp add: delete_sale_record_def list_query_seed choose_sid_def dec_lib_strip
        dec_lib_int Let_def rollback_live_update [OF seed_clean])
  show ?thesis
    using operations_atomic [OF seed_clean, where F = "\<lambda>s. s = UpdBook" and D = no_rounding
        and sdate' = "''2024-02-01''" and mid' = "''M001''" and bid' = "''B001''"
        and sqty' = 3 and sdiscount' = 50 and L = dec_lib and stdin = "[''2'']"]
      seed_clean a d
    by blast
qed

section \<open>The stock never becomes negative\<close>

lemma find_distinct_unique:
  "distinct (map f xs) \<Longrightarrow> find (\<lambda>x. f x = k) xs = Some y \<Longrightarrow> x \<in> set xs \<Longrightarrow> f x = k
   \<Longrightarrow> x = y"
  by (induction xs) (auto split: if_splits simp: image_iff)

lemma num_val_integer_affinity [simp]: "num_val (integer_affinity r) = r"
  by (simp add: integer_affinity_def)

text \<open>
  A stock that is not less than the quantity stays non-negative when the quantity is
  subtracted, also when the subtraction is carried out in floating point.
\<close>

lemma sub_stock_nonneg:
  assumes "rounding D" and "\<not> num_less s q"
    and "case s of IntV n \<Rightarrow> True | RealV r \<Rightarrow> D r = r"
  shows "0 \<le> num_val (sub_stock D s q)"
proof -
  from assms(1) have m: "\<And>x y. x \<le> y \<Longrightarrow> D x \<le> D y" and z: "D 0 = 0"
    by (auto simp: rounding_def mono_def)
  show ?thesis
  proof (cases s)
    case (IntV n)
    with assms(2) have "q \<le> n" by simp
    then have "D (of_int q) \<le> D (of_int n)"
      by (intro m) simp
    then have "D 0 \<le> D (D (of_int n) - D (of_int q))"
      by (intro m) simp
    with z IntV \<open>q \<le> n\<close> show ?thesis by simp
  next
    case (RealV r)
    with assms(2,3) have "of_int q \<le> r" and "D r = r" by simp_all
    then have "D (of_int q) \<le> r"
      using m [of "of_int q" r] by simp
    then have "D 0 \<le> D (r - D (of_int q))"
      by (intro m) simp
    with z RealV show ?thesis by simp
  qed
qed

lemma stock_ok_update_stock:
  assumes "rounding D"
    and "distinct (map book.bid (books st))"
    and "select_book st k = Some b"
    and "\<not> num_less (bstock b) q"
    and "stock_ok st" and "real_stock_ok D st"
  shows "stock_ok (update_stock D st q k)"
proof -
  have "0 \<le> num_val (sub_stock D (bstock x) q)" if "x \<in> set (books st)" "book.bid x = k" for x
  proof -
    from assms(2,3) that have "x = b"
      unfolding select_book_def by (rule find_distinct_unique)
    moreover from assms(6) that(1) have "case bstock x of IntV n \<Rightarrow> True | RealV r \<Rightarrow> D r = r"
      by (auto simp: real_stock_ok_def list_all_iff)
    ultimately show ?thesis
      using assms(1,4) by (intro sub_stock_nonneg) simp_all
  qed
  with assms(5) show ?thesis
    by (auto simp: stock_ok_def update_stock_def list_all_iff)
qed

lemma stock_ok_insert_sale [simp]: "stock_ok (insert_sale st d m b q disc t) = stock_ok st"
  by (simp add: stock_ok_def insert_sale_def)

lemma stock_ok_update_sale [simp]: "stock_ok (update_sale st d t k) = stock_ok st"
  by (simp add: stock_ok_def update_sale_def)

lemma stock_ok_delete_sale [simp]: "stock_ok (delete_sale st k) = stock_ok st"
  by (simp add: stock_ok_def delete_sale_def)

lemma real_stock_ok_insert_sale [simp]:
  "real_stock_ok D (insert_sale st d m b q disc t) = real_stock_ok D st"
  by (simp add: real_stock_ok_def insert_sale_def)

lemma books_insert_sale [simp]: "books (insert_sale st d m b q disc t) = books st"
  by (simp add: insert_sale_def)

lemma add_sale_stock_ok:
  assumes "rounding D"
    and "distinct (map book.bid (books (live c)))"
    and "real_stock_ok D (live c)"
    and "stock_ok (live c)" and "stock_ok (saved c)"
  shows "stock_ok (live (snd (add_sale D F c sdate' mid' bid' sqty' sdiscount'))) \<and>
         stock_ok (saved (snd (add_sale D F c sdate' mid' bid' sqty' sdiscount')))"
proof (cases "select_book (live c) bid'")
  case None
  with assms show ?thesis
    by (simp add: add_sale_def db_error_def rollback_def)
next
  case (Some b)
  show ?thesis
  proof (cases "num_less (bstock b) sqty'")
    case False
    have "stock_ok (update_stock D (insert_sale (live c) sdate' mid' bid' sqty' sdiscount'
            (bprice b * sqty' - sdiscount')) sqty' bid')"
      using assms(1-4) Some False by (intro stock_ok_update_stock [where b = b]) simp_all
    with assms Some show ?thesis
      by (simp add: add_sale_def db_error_def rollback_def commit_def Let_def)
  next
    case True
    with assms Some show ?thesis
      by (simp add: add_sale_def db_error_def rollback_def)
  qed
qed

lemma update_sale_record_stock_ok:
  assumes "stock_ok (live c)" and "stock_ok (saved c)"
  shows "stock_ok (live (fst (snd (update_sale_record L F c stdin)))) \<and>
         stock_ok (saved (fst (snd (update_sale_record L F c stdin))))"
  using assms
  by (auto simp: update_sale_record_def Let_def commit_def rollback_def
      split: option.splits list.splits sum.splits prod.splits)

lemma delete_sale_record_stock_ok:
  assumes "stock_ok (live c)" and "stock_ok (saved c)"
  shows "stock_ok (live (fst (snd (delete_sale_record L F c stdin)))) \<and>
         stock_ok (saved (fst (snd (delete_sale_record L F c stdin))))"
  using assms
  by (auto simp: delete_sale_record_def Let_def commit_def rollback_def
      split: option.splits list.splits sum.splits prod.splits)

text \<open>
  C9. Non-negative stock is an invariant. In a store that satisfies the PRIMARY KEY
  constraints, if every book has a non-negative stock, in the live and in the committed
  state, then so it is after \<open>add_sale\<close> with any arguments, whether it succeeds, fails or
  is left by an exception, after \<open>update_sale_record\<close> and after \<open>delete_sale_record\<close>,
  whatever is typed and whichever statements raise a database error. This covers the
  stock that an overflowing update turns into a REAL; for it, the floating-point
  rounding is assumed to be a rounding and the REAL stocks in the store to be doubles.
\<close>

theorem stock_nonneg_preserved:
  assumes "rounding D" and "wf_store (live c)" and "real_stock_ok D (live c)"
    and "stock_ok (live c)" and "stock_ok (saved c)"
  shows "stock_ok (live (snd (add_sale D F c sdate' mid' bid' sqty' sdiscount'))) \<and>
         stock_ok (saved (snd (add_sale D F c sdate' mid' bid' sqty' sdiscount'))) \<and>
         stock_ok (live (fst (snd (update_sale_record L F c stdin)))) \<and>
         stock_ok (saved (fst (snd (update_sale_record L F c stdin)))) \<and>
         stock_ok (live (fst (snd (delete_sale_record L F c stdin)))) \<and>
         stock_ok (saved (fst (snd (delete_sale_record L F c stdin))))"
proof -
  from assms(2) have "distinct (map book.bid (books (live c)))"
    by (simp add: wf_store_def)
  from add_sale_stock_ok [OF assms(1) this assms(3,4,5)]
    update_sale_record_stock_ok [OF assms(4,5)] delete_sale_record_stock_ok [OF assms(4,5)]
  show ?thesis by blast
qed

lemma rounding_no_rounding: "rounding no_rounding"
  by (simp add: rounding_def no_rounding_def mono_def)

lemma seed_real_stock_ok: "real_stock_ok D (live seed_conn)"
  by (simp add: real_stock_ok_def seed_conn_def seed_store_def)

text \<open>On the seed data, selling all 50 copies of \<open>B001\<close> leaves the stock 0.\<close>

theorem stock_nonneg_preserved_witness:
  "rounding no_rounding \<and> wf_store (live seed_conn) \<and>
   real_stock_ok no_rounding (live seed_conn) \<and>
   stock_ok (live seed_conn) \<and> stock_ok (saved seed_conn) \<and>
   stock_ok (live (snd (add_sale no_rounding no_faults seed_conn ''2024-02-01'' ''M001'' ''B001''
                          50 0))) \<and>
   map_option bstock
     (select_book
        (live (snd (add_sale no_rounding no_faults seed_conn ''2024-02-01'' ''M001'' ''B001'' 50 0)))
        ''B001'') = Some (IntV 0)"
proof -
  let ?b = "\<lparr>book.bid = ''B001'', btitle = ''Python Programming'', bprice = 600,
             bstock = IntV 50\<rparr>"
  have g: "\<not> num_less (bstock ?b) 50"
    by simp
  have i: "in_i64 50" "in_i64 0" "in_i64 (bprice ?b * 50 - 0)"
    "in_i64 (next_sid (live seed_conn))"
    by (simp_all add: seed_next_sid)
  have "map_option bstock
     (select_book
        (live (snd (add_sale no_rounding no_faults seed_conn ''2024-02-01'' ''M001'' ''B001'' 50 0)))
        ''B001'') = Some (IntV 0)"
    unfolding add_sale_ok_no_faults [OF seed_member_M001 seed_book_B001 g i]
    by (simp add: select_book_update_stock seed_book_B001)
  with rounding_no_rounding seed_wf seed_real_stock_ok seed_stock_ok
    stock_nonneg_preserved [OF rounding_no_rounding seed_wf seed_real_stock_ok seed_stock_ok,
      where F = no_faults and sdate' = "''2024-02-01''" and mid' = "''M001''"
      and bid' = "''B001''" and sqty' = 50 and sdiscount' = 0]
  show ?thesis by blast
qed

section \<open>Updating and deleting a sale\<close>

lemma non_negative_input_value:
  assumes "dl \<noteq> []" and "py_int L dl = Some d" and "0 \<le> d"
  shows "get_valid_non_negative_integer_input L (dl # rest) = (Inr (Some d), rest, [])"
  using assms by (simp add: get_valid_non_negative_integer_input.simps)

lemma choose_sid_position:
  assumes "py_strip L typed \<noteq> []" and "py_int L (py_strip L typed) = Some idx"
    and "1 \<le> idx" and "idx \<le> int (length rows)"
  shows "choose_sid L rows typed = Inr (Some (fst (rows ! nat (idx - 1))))"
  using assms by (simp add: choose_sid_def)


lemma map_update_distinct:
  assumes "distinct (map f xs)" and "find (\<lambda>x. f x = k) xs = Some y"
  shows "map (\<lambda>x. if f x = k then upd x else x) xs = map (\<lambda>x. if x = y then upd y else x) xs"
proof (rule map_cong [OF refl])
  fix x assume "x \<in> set xs"
  from assms(2) have y: "f y = k"
    by (auto simp: find_Some_iff)
  show "(if f x = k then upd x else x) = (if x = y then upd y else x)"
  proof (cases "f x = k")
    case True
    with find_distinct_unique [OF assms \<open>x \<in> set xs\<close>] have "x = y" .
    with True show ?thesis by simp
  next
    case False
    with y have "x \<noteq> y" by blast
    with False show ?thesis by simp
  qed
qed

lemma filter_remove1_distinct:
  assumes "distinct (map f xs)" and "find (\<lambda>x. f x = k) xs = Some y"
  shows "filter (\<lambda>x. f x \<noteq> k) xs = remove1 y xs"
  using assms
proof (induction xs)
  case Nil
  then show ?case by simp
next
  case (Cons a xs)
  show ?case
  proof (cases "f a = k")
    case True
    with Cons.prems have "a = y" by simp
    moreover from True Cons.prems have "\<forall>x \<in> set xs. f x \<noteq> k"
      by (auto simp: image_iff)
    then have "filter (\<lambda>x. f x \<noteq> k) xs = xs"
      by (simp add: filter_id_conv)
    ultimately show ?thesis using True by simp
  next
    case False
    with Cons.prems have "find (\<lambda>x. f x = k) xs = Some y" and "a \<noteq> y"
      by (auto simp: find_Some_iff)
    with Cons False show ?thesis by auto
  qed
qed

text \<open>
  The successful paths of the two procedures: the line typed is the position \<open>idx\<close> of the
  numbered list, the sale at that position has the identifier \<open>k\<close>, and no statement
  raises.
\<close>

lemma update_sale_record_ok:
  assumes "py_strip L typed \<noteq> []" and "py_int L (py_strip L typed) = Some idx"
    and "1 \<le> idx" and "idx \<le> int (length (list_query (live c)))"
    and "fst (list_query (live c) ! nat (idx - 1)) = k"
    and "dl \<noteq> []" and "py_int L dl = Some d" and "0 \<le> d"
    and "select_sale (live c) k = Some s"
    and "select_book (live c) (sale.bid s) = Some b"
    and "in_i64 d" and "in_i64 (bprice b * sqty s - d)"
  shows "update_sale_record L no_faults c (typed # dl # rest) =
           (Inr (),
            \<lparr>saved = update_sale (live c) d (bprice b * sqty s - d) k,
             live = update_sale (live c) d (bprice b * sqty s - d) k\<rparr>,
            rest, print_list (list_query (live c)) @ [SaleUpdated k (bprice b * sqty s - d)])"
proof -
  from assms(3,4) have ne: "list_query (live c) \<noteq> []"
    by auto
  have ch: "choose_sid L (list_query (live c)) typed = Inr (Some k)"
    using choose_sid_position [OF assms(1-4)] assms(5) by simp
  show ?thesis
    using ne ch assms(9-12)
    by (simp add: update_sale_record_def Let_def non_negative_input_value [OF assms(6-8)]
        commit_def)
qed

lemma delete_sale_record_ok:
  assumes "py_strip L typed \<noteq> []" and "py_int L (py_strip L typed) = Some idx"
    and "1 \<le> idx" and "idx \<le> int (length (list_query (live c)))"
    and "fst (list_query (live c) ! nat (idx - 1)) = k"
  shows "delete_sale_record L no_faults c (typed # rest) =
           (Inr (), \<lparr>saved = delete_sale (live c) k, live = delete_sale (live c) k\<rparr>, rest,
            print_list (list_query (live c)) @ [SaleDeleted k])"
proof -
  from assms(3,4) have ne: "list_query (live c) \<noteq> []"
    by auto
  have ch: "choose_sid L (list_query (live c)) typed = Inr (Some k)"
    using choose_sid_position [OF assms(1-4)] assms(5) by simp
  show ?thesis
    using ne ch by (simp add: delete_sale_record_def Let_def commit_def)
qed



lemma dec_lib_int_big:
  "py_int dec_lib ''9223372036854775808'' = Some 9223372036854775808"
  by (simp add: dec_lib_def dec_int_def is_digit_def)

text \<open>
  C5, as the code has it. On the seed data, the first sale is selected and the discount
  \<open>2^63\<close> is typed: the sale exists and the discount is not negative, but it cannot be
  bound to the UPDATE. \<open>update_sale_record\<close> is left by \<open>OverflowError\<close>, which its
  \<open>except\<close> clause does not catch, and the discount and the total of the sale are as
  they were.
\<close>

theorem update_discount_counterexample:
  "select_sale (live seed_conn) 1 =
     Some \<lparr>sid = 1, sdate = ''2024-01-15'', mid = ''M001'', bid = ''B001'',
           sqty = 2, sdiscount = 100, stotal = 1100\<rparr> \<and>
   py_int dec_lib ''9223372036854775808'' = Some 9223372036854775808 \<and>
   update_sale_record dec_lib no_faults seed_conn [''1'', ''9223372036854775808''] =
     (Inl OverflowError, seed_conn, [], print_list (list_query (live seed_conn)))"
proof -
  have "update_sale_record dec_lib no_faults seed_conn [''1'', ''9223372036854775808''] =
     (Inl OverflowError, seed_conn, [], print_list (list_query (live seed_conn)))"
    by (simp add: update_sale_record_def list_query_seed choose_sid_def dec_lib_strip
        dec_lib_int dec_lib_int_big Let_def get_valid_non_negative_integer_input.simps
        seed_sale_1 seed_book_B001 in_i64_def)
  with seed_sale_1 dec_lib_int_big show ?thesis
    by simp
qed

text \<open>
  C5, amended. When the sale \<open>s\<close> with identifier \<open>k\<close> is selected in the numbered list and
  a discount \<open>d \<ge> 0\<close> is typed such that \<open>d\<close> and the new total are 64-bit integers,
  \<open>update_sale_record\<close> commits the sale table in which the row \<open>s\<close> has the discount \<open>d\<close>
  and the total \<open>bprice * sqty - d\<close>, where \<open>bprice\<close> is the price the book of the sale
  has in the store now and \<open>sqty\<close> is the quantity stored in the row; the other fields of
  \<open>s\<close> and all other rows of the table are as before, and so are the other tables. The
  store satisfies the PRIMARY KEY constraint on \<open>sid\<close>, the book of the sale exists, and
  no statement raises a database error.
\<close>

theorem update_discount:
  assumes "py_strip L typed \<noteq> []" and "py_int L (py_strip L typed) = Some idx"
    and "1 \<le> idx" and "idx \<le> int (length (list_query (live c)))"
    and "fst (list_query (live c) ! nat (idx - 1)) = k"
    and "dl \<noteq> []" and "py_int L dl = Some d" and "0 \<le> d"
    and "select_sale (live c) k = Some s"
    and "select_book (live c) (sale.bid s) = Some b"
    and "in_i64 d" and "in_i64 (bprice b * sqty s - d)"
    and "distinct (map sid (sales (live c)))"
  shows "let new_total = bprice b * sqty s - d;
             st' = (live c)\<lparr>sales :=
                      map (\<lambda>x. if x = s then s\<lparr>sdiscount := d, stotal := new_total\<rparr> else x)
                        (sales (live c))\<rparr>
         in update_sale_record L no_faults c (typed # dl # rest) =
              (Inr (), \<lparr>saved = st', live = st'\<rparr>, rest,
               print_list (list_query (live c)) @ [SaleUpdated k new_total])"
proof -
  have "update_sale (live c) d t k =
         (live c)\<lparr>sales := map (\<lambda>x. if x = s then s\<lparr>sdiscount := d, stotal := t\<rparr> else x)
                              (sales (live c))\<rparr>" for t
    unfolding update_sale_def
    using map_update_distinct [OF assms(13) assms(9) [unfolded select_sale_def],
        where upd = "\<lambda>x. x\<lparr>sdiscount := d, stotal := t\<rparr>"]
    by simp
  with update_sale_record_ok [OF assms(1-12)] show ?thesis
    by (simp add: Let_def)
qed

text \<open>
  On the seed data: the first sale has two copies of \<open>B001\<close> (price 600) with discount 100
  and total 1100; with the discount 0 its total becomes 1200.
\<close>

theorem update_discount_witness:
  "py_strip dec_lib ''1'' \<noteq> [] \<and> py_int dec_lib (py_strip dec_lib ''1'') = Some 1 \<and>
   fst (list_query (live seed_conn) ! nat (1 - 1)) = 1 \<and>
   py_int dec_lib ''0'' = Some 0 \<and>
   select_sale (live seed_conn) 1 =
     Some \<lparr>sid = 1, sdate = ''2024-01-15'', mid = ''M001'', bid = ''B001'',
           sqty = 2, sdiscount = 100, stotal = 1100\<rparr> \<and>
   in_i64 0 \<and> in_i64 (600 * 2 - 0) \<and>
   distinct (map sid (sales (live seed_conn))) \<and>
   select_sale (saved (fst (snd (update_sale_record dec_lib no_faults seed_conn [''1'', ''0''])))) 1 =
     Some \<lparr>sid = 1, sdate = ''2024-01-15'', mid = ''M001'', bid = ''B001'',
           sqty = 2, sdiscount = 0, stotal = 1200\<rparr>"
proof -
  let ?s = "\<lparr>sid = 1, sdate = ''2024-01-15'', mid = ''M001'', bid = ''B001'',
             sqty = 2, sdiscount = 100, stotal = 1100\<rparr>"
  let ?b = "\<lparr>book.bid = ''B001'', btitle = ''Python Programming'', bprice = 600,
             bstock = IntV 50\<rparr>"
  have h1: "py_strip dec_lib ''1'' \<noteq> []"
    and h2: "py_int dec_lib (py_strip dec_lib ''1'') = Some 1"
    by (simp_all add: dec_lib_strip dec_lib_int)
  have h3: "(1::int) \<le> 1" and h4: "1 \<le> int (length (list_query (live seed_conn)))"
    and h5: "fst (list_query (live seed_conn) ! nat (1 - 1)) = 1"
    by (simp_all add: list_query_seed)
  have h6: "''0'' \<noteq> []" and h7: "py_int dec_lib ''0'' = Some 0" and h8: "(0::int) \<le> 0"
    by (simp_all add: dec_lib_int)
  have h10: "select_book (live seed_conn) (sale.bid ?s) = Some ?b"
    by (simp add: seed_book_B001)
  have h11: "in_i64 0" and h12: "in_i64 (bprice ?b * sqty ?s - 0)"
    by simp_all
  have h13: "distinct (map sid (sales (live seed_conn)))"
    by (simp add: seed_sids)
  from update_discount [OF h1 h2 h3 h4 h5 h6 h7 h8 seed_sale_1 h10 h11 h12 h13,
      where rest = "[]"]
  have "select_sale (saved (fst (snd (update_sale_record dec_lib no_faults seed_conn
          [''1'', ''0''])))) 1 =
        Some \<lparr>sid = 1, sdate = ''2024-01-15'', mid = ''M001'', bid = ''B001'',
              sqty = 2, sdiscount = 0, stotal = 1200\<rparr>"
    by (simp add: Let_def select_sale_def seed_conn_def seed_store_def)
  with h1 h2 h5 h7 seed_sale_1 h11 h13 show ?thesis
    by simp
qed




text \<open>
  C7. When the sale \<open>s\<close> with identifier \<open>k\<close> is selected in the numbered list,
  \<open>delete_sale_record\<close> commits the store in which exactly the row \<open>s\<close> is removed from the
  sale table; the other sale rows, the members and the books, with their stock, are as
  before. The store satisfies the PRIMARY KEY constraint on \<open>sid\<close> and no statement
  raises a database error.
\<close>

theorem delete_sale_row:
  assumes "py_strip L typed \<noteq> []" and "py_int L (py_strip L typed) = Some idx"
    and "1 \<le> idx" and "idx \<le> int (length (list_query (live c)))"
    and "fst (list_query (live c) ! nat (idx - 1)) = k"
    and "select_sale (live c) k = Some s"
    and "distinct (map sid (sales (live c)))"
  shows "let st' = (live c)\<lparr>sales := remove1 s (sales (live c))\<rparr>
         in delete_sale_record L no_faults c (typed # rest) =
              (Inr (), \<lparr>saved = st', live = st'\<rparr>, rest,
               print_list (list_query (live c)) @ [SaleDeleted k]) \<and>
            books st' = books (live c) \<and> members st' = members (live c)"
proof -
  have "delete_sale (live c) k = (live c)\<lparr>sales := remove1 s (sales (live c))\<rparr>"
    unfolding delete_sale_def
    using filter_remove1_distinct [OF assms(7) assms(6) [unfolded select_sale_def]]
    by simp
  with delete_sale_record_ok [OF assms(1-5)] show ?thesis
    by (simp add: Let_def)
qed

text \<open>
  On the seed data: deleting the second sale, one copy of \<open>B002\<close>, leaves the sales 1, 3,
  4 and 5 and the stock of \<open>B002\<close> at 30.
\<close>

theorem delete_sale_row_witness:
  "py_strip dec_lib ''2'' \<noteq> [] \<and> py_int dec_lib (py_strip dec_lib ''2'') = Some 2 \<and>
   fst (list_query (live seed_conn) ! nat (2 - 1)) = 2 \<and>
   select_sale (live seed_conn) 2 =
     Some \<lparr>sid = 2, sdate = ''2024-01-16'', mid = ''M002'', bid = ''B002'',
           sqty = 1, sdiscount = 50, stotal = 750\<rparr> \<and>
   distinct (map sid (sales (live seed_conn))) \<and>
   map sid (sales (saved (fst (snd (delete_sale_record dec_lib no_faults seed_conn [''2'']))))) =
     [1, 3, 4, 5] \<and>
   map_option bstock
     (select_book (saved (fst (snd (delete_sale_record dec_lib no_faults seed_conn [''2''])))) ''B002'')
     = Some (IntV 30)"
proof -
  have h1: "py_strip dec_lib ''2'' \<noteq> []"
    and h2: "py_int dec_lib (py_strip dec_lib ''2'') = Some 2"
    by (simp_all add: dec_lib_strip dec_lib_int)
  have h3: "(1::int) \<le> 2" and h4: "2 \<le> int (length (list_query (live seed_conn)))"
    and h5: "fst (list_query (live seed_conn) ! nat (2 - 1)) = 2"
    by (simp_all add: list_query_seed)
  have h7: "distinct (map sid (sales (live seed_conn)))"
    by (simp add: seed_sids)
  from delete_sale_row [OF h1 h2 h3 h4 h5 seed_sale_2 h7, where rest = "[]"]
  have "map sid (sales (saved (fst (snd (delete_sale_record dec_lib no_faults seed_conn
          [''2'']))))) = [1, 3, 4, 5] \<and>
        map_option bstock
          (select_book (saved (fst (snd (delete_sale_record dec_lib no_faults seed_conn
             [''2''])))) ''B002'') = Some (IntV 30)"
    by (simp add: Let_def select_book_def seed_conn_def seed_store_def)
  with h1 h2 h5 seed_sale_2 h7 show ?thesis
    by blast
qed

section \<open>The sale report\<close>

lemma find_distinct_member:
  "distinct (map f xs) \<Longrightarrow> x \<in> set xs \<Longrightarrow> find (\<lambda>y. f y = f x) xs = Some x"
  by (induction xs) (auto simp: image_iff)

lemma join_unique:
  "distinct (map f xs) \<Longrightarrow> find (\<lambda>x. f x = k) xs = Some y \<Longrightarrow>
   concat (map (\<lambda>x. if f x = k then g x else []) xs) = g y"
proof (induction xs)
  case Nil
  then show ?case by simp
next
  case (Cons a xs)
  show ?case
  proof (cases "f a = k")
    case True
    with Cons.prems have "a = y" by simp
    moreover from True Cons.prems have "\<forall>x \<in> set xs. f x \<noteq> k"
      by (auto simp: image_iff)
    then have "concat (map (\<lambda>x. if f x = k then g x else []) xs) = []"
      by (induction xs) auto
    ultimately show ?thesis using True by simp
  next
    case False
    with Cons show ?thesis by simp
  qed
qed

lemma join_map_update:
  assumes "\<And>x. key (U x) = key x" and "\<And>x. g (U x) = g x"
  shows "concat (map (\<lambda>x. if key x = k then [g x] else []) (map U xs)) =
         concat (map (\<lambda>x. if key x = k then [g x] else []) xs)"
  by (induction xs) (simp_all add: assms)

lemma fold_max_ge: "a \<le> fold max xs (a::int)"
  by (induction xs arbitrary: a) (auto intro: order_trans [OF max.cobounded2])

lemma fold_max_upper: "x \<in> set xs \<Longrightarrow> x \<le> fold max xs (a::int)"
proof (induction xs arbitrary: a)
  case Nil
  then show ?case by simp
next
  case (Cons y ys)
  show ?case
  proof (cases "x = y")
    case True
    have "y \<le> max y a" by simp
    also have "\<dots> \<le> fold max ys (max y a)" by (rule fold_max_ge)
    finally show ?thesis using True by simp
  next
    case False
    with Cons show ?thesis by simp
  qed
qed

text \<open>The identifier of an inserted row is greater than every identifier in the table.\<close>

lemma next_sid_greater: "s \<in> set (sales st) \<Longrightarrow> sid s < next_sid st"
  using fold_max_upper [of "sid s" "map sid (sales st)" "sale_seq st"]
  by (simp add: next_sid_def)

lemma insort_key_snoc:
  "f a \<le> f y \<Longrightarrow> insort_key f a (zs @ [y]) = insort_key f a zs @ [y]"
  by (induction zs) auto

lemma sort_key_snoc:
  assumes "\<forall>x \<in> set xs. f x \<le> f y"
  shows "sort_key f (xs @ [y]) = sort_key f xs @ [y]"
  using assms
proof (induction xs)
  case Nil
  then show ?case by simp
next
  case (Cons a xs)
  then have "sort_key f (xs @ [y]) = sort_key f xs @ [y]" by simp
  moreover from Cons.prems have "f a \<le> f y" by simp
  ultimately show ?case
    by (simp add: insort_key_snoc)
qed

lemma sorted_concat_map:
  assumes "sorted (map g xs)" and "\<And>x r. x \<in> set xs \<Longrightarrow> r \<in> set (J x) \<Longrightarrow> h r = g x"
  shows "sorted (map h (concat (map J xs)))"
  using assms
proof (induction xs)
  case Nil
  then show ?case by simp
next
  case (Cons a xs)
  have 1: "sorted (map h (J a))"
  proof -
    have "map h (J a) = replicate (length (J a)) (g a)"
      using Cons.prems(2) [of a] by (auto simp: map_replicate_const [symmetric] intro: map_cong)
    then show ?thesis by (simp add: sorted_replicate)
  qed
  have 2: "sorted (map h (concat (map J xs)))"
    using Cons by simp
  have 3: "h r \<le> h r'" if "r \<in> set (J a)" "r' \<in> set (concat (map J xs))" for r r'
  proof -
    from that(2) obtain x where x: "x \<in> set xs" "r' \<in> set (J x)" by auto
    with Cons.prems(2) [of x r'] have "h r' = g x" by simp
    moreover from that(1) Cons.prems(2) [of a r] have "h r = g a" by simp
    moreover from Cons.prems(1) x(1) have "g a \<le> g x" by simp
    ultimately show ?thesis by simp
  qed
  from 1 2 3 show ?case
    by (auto simp: sorted_append)
qed

lemma report_query_sorted: "sorted (map fst (report_query st))"
  unfolding report_query_def
  by (rule sorted_concat_map [where g = sid]) (auto split: if_splits)

lemma report_query_rows:
  assumes "wf_store st" and "row \<in> set (report_query st)"
  shows "\<exists>s m b. select_sale st (fst row) = Some s \<and>
           select_member st (sale.mid s) = Some m \<and>
           select_book st (sale.bid s) = Some b \<and>
           row = (sid s, sdate s, mname m, btitle b, bprice b, sqty s, sdiscount s, stotal s)"
proof -
  from assms(2) obtain s m b where
    s: "s \<in> set (sales st)" and m: "m \<in> set (members st)" "member.mid m = sale.mid s"
    and b: "b \<in> set (books st)" "book.bid b = sale.bid s"
    and row: "row = (sid s, sdate s, mname m, btitle b, bprice b, sqty s, sdiscount s, stotal s)"
    unfolding report_query_def by (auto split: if_splits)
  from assms(1) have d: "distinct (map sid (sales st))" "distinct (map member.mid (members st))"
    "distinct (map book.bid (books st))"
    by (simp_all add: wf_store_def)
  have "select_sale st (fst row) = Some s"
    using find_distinct_member [OF d(1) s] row by (simp add: select_sale_def)
  moreover have "select_member st (sale.mid s) = Some m"
    using find_distinct_member [OF d(2) m(1)] m(2) by (simp add: select_member_def)
  moreover have "select_book st (sale.bid s) = Some b"
    using find_distinct_member [OF d(3) b(1)] b(2) by (simp add: select_book_def)
  ultimately show ?thesis using row by blast
qed

lemma report_query_complete:
  assumes "s \<in> set (sales st)" and "select_member st (sale.mid s) = Some m"
    and "select_book st (sale.bid s) = Some b"
  shows "(sid s, sdate s, mname m, btitle b, bprice b, sqty s, sdiscount s, stotal s)
           \<in> set (report_query st)"
proof -
  from assms(2) have "m \<in> set (members st)" "member.mid m = sale.mid s"
    by (auto simp: select_member_def find_Some_iff)
  moreover from assms(3) have "b \<in> set (books st)" "book.bid b = sale.bid s"
    by (auto simp: select_book_def find_Some_iff)
  ultimately show ?thesis
    using assms(1) unfolding report_query_def by force
qed

lemma report_query_empty: "sales st = [] \<Longrightarrow> report_query st = []"
  by (simp add: report_query_def)

lemma report_query_add_sale:
  assumes "wf_store st"
    and "select_member st mid' = Some mr"
    and "select_book st bid' = Some b"
  shows "report_query (update_stock D (insert_sale st sdate' mid' bid' sqty' sdiscount' t)
           sqty' bid') =
         report_query st @
           [(next_sid st, sdate', mname mr, btitle b, bprice b, sqty', sdiscount', t)]"
proof -
  let ?new = "\<lparr>sid = next_sid st, sdate = sdate', mid = mid', bid = bid',
               sqty = sqty', sdiscount = sdiscount', stotal = t\<rparr>"
  let ?upd = "\<lambda>x. if book.bid x = bid' then x\<lparr>bstock := sub_stock D (bstock x) sqty'\<rparr>
                  else x"
  let ?J = "\<lambda>bs s. concat (map (\<lambda>m. if member.mid m = sale.mid s
                then concat (map (\<lambda>x. if book.bid x = sale.bid s
                  then [(sid s, sdate s, mname m, btitle x, bprice x, sqty s, sdiscount s, stotal s)]
                  else []) bs)
                else []) (members st))"
  from assms(1) have d: "distinct (map member.mid (members st))"
    "distinct (map book.bid (books st))"
    by (simp_all add: wf_store_def)
  have srt: "sort_key sid (sales st @ [?new]) = sort_key sid (sales st) @ [?new]"
    by (rule sort_key_snoc) (auto dest: next_sid_greater)
  have u: "book.bid (?upd x) = book.bid x" "btitle (?upd x) = btitle x"
    "bprice (?upd x) = bprice x" for x
    by simp_all
  have books_eq: "?J (map ?upd (books st)) s = ?J (books st) s" for s
    by (subst join_map_update) (simp_all add: u)
  have new_row: "?J (books st) ?new =
      [(next_sid st, sdate', mname mr, btitle b, bprice b, sqty', sdiscount', t)]"
    by (simp add: join_unique [OF d(1) assms(2) [unfolded select_member_def]]
        join_unique [OF d(2) assms(3) [unfolded select_book_def]] cong: if_cong)
  have "report_query (update_stock D (insert_sale st sdate' mid' bid' sqty' sdiscount' t)
          sqty' bid')
        = concat (map (?J (map ?upd (books st))) (sort_key sid (sales st @ [?new])))"
    by (simp add: report_query_def update_stock_def insert_sale_def cong: if_cong)
  also have "\<dots> = concat (map (?J (books st)) (sort_key sid (sales st))) @ ?J (books st) ?new"
    unfolding srt books_eq by simp
  also have "concat (map (?J (books st)) (sort_key sid (sales st))) = report_query st"
    by (simp add: report_query_def)
  finally show ?thesis
    unfolding new_row .
qed

text \<open>
  C8. \<open>print_sale_report\<close> returns the connection it was given, whether its query raises
  or not, and when the query does not raise it prints the title and one block per row of
  the query. In a store that satisfies the PRIMARY KEY constraints, the rows are in
  ascending order of \<open>sid\<close>; every row is a sale of the table with the name of the member
  and the title and price of the book that the sale names; every sale whose member and
  book exist has its row; without sales there is no row; and after a successful
  \<open>add_sale\<close> the rows are the rows before followed by the row of the new sale, with the
  name of its member and the title and price of its book.
\<close>

theorem sale_report:
  assumes "wf_store (live c)"
  shows "fst (snd (print_sale_report F c)) = c \<and>
         print_sale_report no_faults c =
           (Inr (), c, ReportHeader # map ReportSale (report_query (live c))) \<and>
         sorted (map fst (report_query (live c))) \<and>
         (\<forall>row \<in> set (report_query (live c)).
            \<exists>s m b. select_sale (live c) (fst row) = Some s \<and>
              select_member (live c) (sale.mid s) = Some m \<and>
              select_book (live c) (sale.bid s) = Some b \<and>
              row = (sid s, sdate s, mname m, btitle b, bprice b, sqty s, sdiscount s,
                     stotal s)) \<and>
         (\<forall>s \<in> set (sales (live c)). \<forall>m b.
            select_member (live c) (sale.mid s) = Some m \<longrightarrow>
            select_book (live c) (sale.bid s) = Some b \<longrightarrow>
            (sid s, sdate s, mname m, btitle b, bprice b, sqty s, sdiscount s, stotal s)
              \<in> set (report_query (live c))) \<and>
         (sales (live c) = [] \<longrightarrow> report_query (live c) = []) \<and>
         (\<forall>msg'. select_member (live c) mid' = Some mr \<longrightarrow>
          select_book (live c) bid' = Some bk \<longrightarrow>
          fst (add_sale D G c sdate' mid' bid' sqty' sdiscount') = Inr (True, msg') \<longrightarrow>
            report_query (live (snd (add_sale D G c sdate' mid' bid' sqty' sdiscount'))) =
            report_query (live c) @
              [(next_sid (live c), sdate', mname mr, btitle bk, bprice bk, sqty', sdiscount',
                bprice bk * sqty' - sdiscount')])"
proof -
  have 1: "fst (snd (print_sale_report F c)) = c"
    by (simp add: print_sale_report_def)
  have 2: "print_sale_report no_faults c =
           (Inr (), c, ReportHeader # map ReportSale (report_query (live c)))"
    by (simp add: print_sale_report_def)
  have 7: "report_query (live (snd (add_sale D G c sdate' mid' bid' sqty' sdiscount'))) =
            report_query (live c) @
              [(next_sid (live c), sdate', mname mr, btitle bk, bprice bk, sqty', sdiscount',
                bprice bk * sqty' - sdiscount')]"
    if h: "select_member (live c) mid' = Some mr" "select_book (live c) bid' = Some bk"
      "fst (add_sale D G c sdate' mid' bid' sqty' sdiscount') = Inr (True, msg')" for msg'
  proof -
    from add_sale_True [OF h(3)] h(1,2)
    have "snd (add_sale D G c sdate' mid' bid' sqty' sdiscount') =
             \<lparr>saved = update_stock D (insert_sale (live c) sdate' mid' bid' sqty' sdiscount'
                         (bprice bk * sqty' - sdiscount')) sqty' bid',
              live = update_stock D (insert_sale (live c) sdate' mid' bid' sqty' sdiscount'
                         (bprice bk * sqty' - sdiscount')) sqty' bid'\<rparr>"
      by auto
    then show ?thesis
      by (simp add: report_query_add_sale [OF assms h(1,2)])
  qed
  from 1 2 7 report_query_sorted report_query_rows [OF assms] report_query_complete
    report_query_empty
  show ?thesis by blast
qed

text \<open>
  On the seed data: after the sale of the scenario, the last block of the report is the
  new sale, number 6, joined with \<open>Alice\<close> and \<open>Python Programming\<close> at 600.
\<close>

theorem sale_report_witness:
  "wf_store (live seed_conn) \<and>
   print_sale_report no_faults seed_conn =
     (Inr (), seed_conn, ReportHeader # map ReportSale (report_query (live seed_conn))) \<and>
   length (report_query (live seed_conn)) = 5 \<and>
   fst (add_sale no_rounding no_faults seed_conn ''2024-02-01'' ''M001'' ''B001'' 3 50) =
     Inr (True, MsgSaleAdded 1750) \<and>
   report_query
     (live (snd (add_sale no_rounding no_faults seed_conn ''2024-02-01'' ''M001'' ''B001'' 3 50))) =
     report_query (live seed_conn) @
       [(6, ''2024-02-01'', ''Alice'', ''Python Programming'', 600, 3, 50, 1750)]"
proof -
  let ?b = "\<lparr>book.bid = ''B001'', btitle = ''Python Programming'', bprice = 600,
             bstock = IntV 50\<rparr>"
  have l: "length (report_query (live seed_conn)) = 5"
    by (simp add: report_query_def seed_conn_def seed_store_def)
  have g: "\<not> num_less (bstock ?b) 3"
    by simp
  have i: "in_i64 3" "in_i64 50" "in_i64 (bprice ?b * 3 - 50)"
    "in_i64 (next_sid (live seed_conn))"
    by (simp_all add: seed_next_sid)
  have ok: "fst (add_sale no_rounding no_faults seed_conn ''2024-02-01'' ''M001'' ''B001'' 3 50) =
     Inr (True, MsgSaleAdded 1750)"
    unfolding add_sale_ok_no_faults [OF seed_member_M001 seed_book_B001 g i]
    by simp
  from sale_report [OF seed_wf, where F = no_faults and G = no_faults and D = no_rounding
      and sdate' = "''2024-02-01''"
      and mid' = "''M001''" and bid' = "''B001''" and sqty' = 3 and sdiscount' = 50
      and mr = "\<lparr>member.mid = ''M001'', mname = ''Alice'', mphone = ''0912-345678'',
                memail = Some ''alice@example.com''\<rparr>"
      and bk = ?b]
    seed_member_M001 seed_book_B001 ok
  have "print_sale_report no_faults seed_conn =
     (Inr (), seed_conn, ReportHeader # map ReportSale (report_query (live seed_conn))) \<and>
   report_query
     (live (snd (add_sale no_rounding no_faults seed_conn ''2024-02-01'' ''M001'' ''B001'' 3 50))) =
     report_query (live seed_conn) @
       [(6, ''2024-02-01'', ''Alice'', ''Python Programming'', 600, 3, 50, 1750)]"
    by (simp add: seed_next_sid)
  with seed_wf l ok show ?thesis by blast
qed

section \<open>The assumptions on the store are kept\<close>

text \<open>
  The seed data satisfies the PRIMARY KEY constraints and has no REAL stock, and every
  statement the program executes keeps the constraints and stores only doubles as REAL
  stocks, so the stores the theorems above assume to be well formed are the stores the
  program can be in.
\<close>

lemma wf_store_insert_sale:
  "wf_store st \<Longrightarrow> wf_store (insert_sale st d m b q disc t)"
  by (auto simp: wf_store_def insert_sale_def dest: next_sid_greater)

lemma wf_store_update_stock: "wf_store (update_stock D st q k) = wf_store st"
proof -
  have "book.bid \<circ>
        (\<lambda>b::book. if book.bid b = k then b\<lparr>bstock := sub_stock D (bstock b) q\<rparr> else b) =
        book.bid"
    by (auto simp: fun_eq_iff)
  then show ?thesis
    by (simp add: wf_store_def update_stock_def)
qed

lemma wf_store_update_sale: "wf_store (update_sale st d t k) = wf_store st"
proof -
  have "sid \<circ> (\<lambda>s::sale. if sid s = k then s\<lparr>sdiscount := d, stotal := t\<rparr> else s) = sid"
    by (auto simp: fun_eq_iff)
  then show ?thesis
    by (simp add: wf_store_def update_sale_def)
qed

lemma wf_store_delete_sale: "wf_store st \<Longrightarrow> wf_store (delete_sale st k)"
  by (simp add: wf_store_def delete_sale_def distinct_map_filter)

lemma add_sale_wf:
  assumes "wf_store (live c)" and "wf_store (saved c)"
  shows "wf_store (live (snd (add_sale D F c sdate' mid' bid' sqty' sdiscount'))) \<and>
         wf_store (saved (snd (add_sale D F c sdate' mid' bid' sqty' sdiscount')))"
  using assms
  by (auto simp: add_sale_def db_error_def rollback_def commit_def Let_def
      wf_store_update_stock wf_store_insert_sale split: option.splits)

lemma update_sale_record_wf:
  assumes "wf_store (live c)" and "wf_store (saved c)"
  shows "wf_store (live (fst (snd (update_sale_record L F c stdin)))) \<and>
         wf_store (saved (fst (snd (update_sale_record L F c stdin))))"
  using assms
  by (auto simp: update_sale_record_def Let_def commit_def rollback_def wf_store_update_sale
      split: option.splits list.splits sum.splits prod.splits)

lemma delete_sale_record_wf:
  assumes "wf_store (live c)" and "wf_store (saved c)"
  shows "wf_store (live (fst (snd (delete_sale_record L F c stdin)))) \<and>
         wf_store (saved (fst (snd (delete_sale_record L F c stdin))))"
  using assms
  by (auto simp: delete_sale_record_def Let_def commit_def rollback_def wf_store_delete_sale
      split: option.splits list.splits sum.splits prod.splits)

lemma real_stock_ok_sub_stock:
  assumes "\<forall>x. D (D x) = D x"
  shows "case sub_stock D s q of IntV n \<Rightarrow> True | RealV r \<Rightarrow> D r = r"
  using assms by (cases s) (auto simp: integer_affinity_def)

lemma real_stock_ok_update_stock:
  assumes "rounding D" and "real_stock_ok D st"
  shows "real_stock_ok D (update_stock D st q k)"
proof -
  from assms(1) have "\<forall>x. D (D x) = D x"
    by (simp add: rounding_def)
  from real_stock_ok_sub_stock [OF this] assms(2) show ?thesis
    by (auto simp: real_stock_ok_def update_stock_def list_all_iff)
qed

lemma add_sale_real_stock_ok:
  assumes "rounding D" and "real_stock_ok D (live c)" and "real_stock_ok D (saved c)"
  shows "real_stock_ok D (live (snd (add_sale D F c sdate' mid' bid' sqty' sdiscount'))) \<and>
         real_stock_ok D (saved (snd (add_sale D F c sdate' mid' bid' sqty' sdiscount')))"
  using assms
  by (auto simp: add_sale_def db_error_def rollback_def commit_def Let_def
      real_stock_ok_update_stock split: option.splits)


end
